theory Spec2Isabelle
  imports Complex_Main "HOL-Library.Multiset"
begin

section \<open>SpinlabSC: the slow-control model classes and data-access layer\<close>

text \<open>
  A shallow embedding of \<^verbatim>\<open>SpinlabSC.py\<close>. Python objects are values of the datatype
  \<open>pyval\<close>; an exception is the \<open>Inl\<close> branch of a sum; a method that writes to the
  database returns the database it leaves behind, also when it raises.

  Text fields are \<open>string\<close> (the docstrings type them so), identifiers and timestamps
  are \<open>int\<close>, and an optional argument with default \<^verbatim>\<open>None\<close> is an \<open>option\<close>.
  Measured values are \<open>real\<close>; a record set only stores them, and no arithmetic on
  them is part of this file.
\<close>

subsection \<open>Exceptions\<close>

datatype error =
    DatabaseException string
  | ModelException string
  | ValueError
  | IndexError
  | AttributeError
  | MySQLError

fun is_ModelException :: "error \<Rightarrow> bool" where
  "is_ModelException (ModelException m) = True"
| "is_ModelException e = False"

fun is_DatabaseException :: "error \<Rightarrow> bool" where
  "is_DatabaseException (DatabaseException m) = True"
| "is_DatabaseException e = False"

subsection \<open>Python values and the model classes\<close>

text \<open>
  One constructor per model class, with the attributes \<^verbatim>\<open>__init__\<close> stores, in the
  order of its parameters:
  \<^item> \<open>OwnerObj name desc ID DTG\<close>
  \<^item> \<open>ProjectObj name desc owner ID DTG\<close>
  \<^item> \<open>SystemObj name desc project ID DTG\<close>
  \<^item> \<open>ManufacturerObj name desc URL ID DTG\<close>
  \<^item> \<open>DeviceObj name desc system URL mfg ID DTG\<close>
  \<^item> \<open>UnitsObj short long desc ID\<close>
  \<^item> \<open>SensorObj name desc device units ID DTG\<close>

  A parent, manufacturer or units argument is any Python value, so that the run-time
  checks of the constructors have something to reject.
\<close>

datatype pyval =
    PyNone
  | PyInt int
  | PyStr string
  | OwnerObj string string "int option" "int option"
  | ProjectObj string string pyval "int option" "int option"
  | SystemObj string string pyval "int option" "int option"
  | ManufacturerObj string string string "int option" "int option"
  | DeviceObj string string pyval string pyval "int option" "int option"
  | UnitsObj string string string "int option"
  | SensorObj string string pyval pyval "int option" "int option"

datatype pyclass =
  Owner_cls | Project_cls | System_cls | Manufacturer_cls | Device_cls | Units_cls | Sensor_cls

text \<open>
  Python's truth value, as \<^verbatim>\<open>if not x\<close> reads it: \<^verbatim>\<open>None\<close>, \<^verbatim>\<open>0\<close> and the empty
  string are false; an instance of a model class is true (none of them defines
  \<^verbatim>\<open>__bool__\<close> or \<^verbatim>\<open>__len__\<close>).
\<close>

fun truthy :: "pyval \<Rightarrow> bool" where
  "truthy PyNone = False"
| "truthy (PyInt i) = (i \<noteq> 0)"
| "truthy (PyStr s) = (s \<noteq> [])"
| "truthy v = True"

fun class_of :: "pyval \<Rightarrow> pyclass option" where
  "class_of (OwnerObj n d i t) = Some Owner_cls"
| "class_of (ProjectObj n d p i t) = Some Project_cls"
| "class_of (SystemObj n d p i t) = Some System_cls"
| "class_of (ManufacturerObj n d u i t) = Some Manufacturer_cls"
| "class_of (DeviceObj n d p u m i t) = Some Device_cls"
| "class_of (UnitsObj s l d i) = Some Units_cls"
| "class_of (SensorObj n d p u i t) = Some Sensor_cls"
| "class_of v = None"

text \<open>
  The model classes derive from \<^verbatim>\<open>Group\<close> (or \<^verbatim>\<open>object\<close>) only, never from one
  another, so \<^verbatim>\<open>isinstance(x, C)\<close> is true exactly of the direct instances of \<open>C\<close>.
\<close>

definition isinstance :: "pyval \<Rightarrow> pyclass \<Rightarrow> bool" where
  "isinstance v c = (class_of v = Some c)"

text \<open>The attribute \<^verbatim>\<open>x.ID\<close>; a value without it raises \<^verbatim>\<open>AttributeError\<close>.\<close>

fun attr_ID :: "pyval \<Rightarrow> error + int option" where
  "attr_ID (OwnerObj n d i t) = Inr i"
| "attr_ID (ProjectObj n d p i t) = Inr i"
| "attr_ID (SystemObj n d p i t) = Inr i"
| "attr_ID (ManufacturerObj n d u i t) = Inr i"
| "attr_ID (DeviceObj n d p u m i t) = Inr i"
| "attr_ID (UnitsObj s l d i) = Inr i"
| "attr_ID (SensorObj n d p u i t) = Inr i"
| "attr_ID v = Inl AttributeError"

subsection \<open>Constructors\<close>

text \<open>\<^verbatim>\<open>Group.__init__\<close>: the checks on the two text fields every group has.\<close>

definition Group_init :: "string \<Rightarrow> string \<Rightarrow> error + unit" where
  "Group_init name desc =
     (if name = [] \<or> desc = [] then
        Inl (ModelException ''All groups must have a valid name and desc'')
      else if length name > 12 then
        Inl (ModelException ''Name of group exceeds 12 char max'')
      else if length desc > 255 then
        Inl (ModelException ''Description of group exceeds 255 char max'')
      else Inr ())"

definition Owner :: "string \<Rightarrow> string \<Rightarrow> int option \<Rightarrow> int option \<Rightarrow> error + pyval" where
  "Owner name desc ID DTG =
     (case Group_init name desc of
        Inl e \<Rightarrow> Inl e
      | Inr u \<Rightarrow> Inr (OwnerObj name desc ID DTG))"

definition Project ::
  "string \<Rightarrow> string \<Rightarrow> pyval \<Rightarrow> int option \<Rightarrow> int option \<Rightarrow> error + pyval" where
  "Project name desc owner ID DTG =
     (if \<not> truthy owner then
        Inl (ModelException ''Projects require a valid owner'')
      else if \<not> isinstance owner Owner_cls then
        Inl (ModelException ''Projects must belong to an owner'')
      else
        (case Group_init name desc of
           Inl e \<Rightarrow> Inl e
         | Inr u \<Rightarrow> Inr (ProjectObj name desc owner ID DTG)))"

definition System ::
  "string \<Rightarrow> string \<Rightarrow> pyval \<Rightarrow> int option \<Rightarrow> int option \<Rightarrow> error + pyval" where
  "System name desc project ID DTG =
     (if \<not> truthy project then
        Inl (ModelException ''Systems require a valid project'')
      else if \<not> isinstance project Project_cls then
        Inl (ModelException ''Systems must belong to a project'')
      else
        (case Group_init name desc of
           Inl e \<Rightarrow> Inl e
         | Inr u \<Rightarrow> Inr (SystemObj name desc project ID DTG)))"

definition Manufacturer ::
  "string \<Rightarrow> string \<Rightarrow> string \<Rightarrow> int option \<Rightarrow> int option \<Rightarrow> error + pyval" where
  "Manufacturer name desc URL ID DTG =
     (if URL = [] then
        Inl (ModelException ''Manufacturer require a valid URL'')
      else if length URL > 255 then
        Inl (ModelException ''URL exceeds 255 char max'')
      else
        (case Group_init name desc of
           Inl e \<Rightarrow> Inl e
         | Inr u \<Rightarrow> Inr (ManufacturerObj name desc URL ID DTG)))"

definition Device ::
  "string \<Rightarrow> string \<Rightarrow> pyval \<Rightarrow> string \<Rightarrow> pyval \<Rightarrow> int option \<Rightarrow> int option
     \<Rightarrow> error + pyval" where
  "Device name desc system URL mfg ID DTG =
     (if \<not> truthy system then
        Inl (ModelException ''Devices require a valid system'')
      else if \<not> isinstance system System_cls then
        Inl (ModelException ''Devices must belong to a system'')
      else if URL = [] then
        Inl (ModelException ''Devices require a valid docs URL'')
      else if length URL > 255 then
        Inl (ModelException ''URL exceeds 255 char max'')
      else if \<not> truthy mfg then
        Inl (ModelException ''Devices require a vailid manufacturer'')
      else
        (case Group_init name desc of
           Inl e \<Rightarrow> Inl e
         | Inr u \<Rightarrow> Inr (DeviceObj name desc system URL mfg ID DTG)))"

definition Units :: "string \<Rightarrow> string \<Rightarrow> string \<Rightarrow> int option \<Rightarrow> error + pyval" where
  "Units short long desc ID =
     (if short = [] \<or> long = [] \<or> desc = [] then
        Inl (ModelException ''Description and short/long forms of units must be provided'')
      else if length short > 25 then
        Inl (ModelException ''Short name of units exceeds 25 char max'')
      else if length long > 255 then
        Inl (ModelException ''Long name of units exceeds 255 char max'')
      else if length desc > 255 then
        Inl (ModelException ''Description of units exceeds 255 char max'')
      else Inr (UnitsObj short long desc ID))"

definition Sensor ::
  "string \<Rightarrow> string \<Rightarrow> pyval \<Rightarrow> pyval \<Rightarrow> int option \<Rightarrow> int option \<Rightarrow> error + pyval" where
  "Sensor name desc device units ID DTG =
     (if \<not> truthy device then
        Inl (ModelException ''Sensors require a valid device'')
      else if \<not> isinstance device Device_cls then
        Inl (ModelException ''sensors must belong to a device'')
      else if \<not> truthy units then
        Inl (ModelException ''Sensors require valid units'')
      else
        (case Group_init name desc of
           Inl e \<Rightarrow> Inl e
         | Inr u \<Rightarrow> Inr (SensorObj name desc device units ID DTG)))"

text \<open>
  \<^verbatim>\<open>Group.Nomenclature\<close>: the parent's nomenclature, a dot and the own name; the own
  name alone when the parent is false. \<^verbatim>\<open>Owner\<close> and \<^verbatim>\<open>Manufacturer\<close> store
  \<^verbatim>\<open>None\<close> as their parent. A value that is no group has no such method.
\<close>

fun Nomenclature :: "pyval \<Rightarrow> error + string" where
  "Nomenclature (OwnerObj n d i t) = Inr n"
| "Nomenclature (ManufacturerObj n d u i t) = Inr n"
| "Nomenclature (ProjectObj n d p i t) =
     (if truthy p then
        (case Nomenclature p of Inl e \<Rightarrow> Inl e | Inr s \<Rightarrow> Inr (s @ ''.'' @ n))
      else Inr n)"
| "Nomenclature (SystemObj n d p i t) =
     (if truthy p then
        (case Nomenclature p of Inl e \<Rightarrow> Inl e | Inr s \<Rightarrow> Inr (s @ ''.'' @ n))
      else Inr n)"
| "Nomenclature (DeviceObj n d p u m i t) =
     (if truthy p then
        (case Nomenclature p of Inl e \<Rightarrow> Inl e | Inr s \<Rightarrow> Inr (s @ ''.'' @ n))
      else Inr n)"
| "Nomenclature (SensorObj n d p u i t) =
     (if truthy p then
        (case Nomenclature p of Inl e \<Rightarrow> Inl e | Inr s \<Rightarrow> Inr (s @ ''.'' @ n))
      else Inr n)"
| "Nomenclature v = Inl AttributeError"

subsection \<open>Records and record sets\<close>

record record_obj =
  r_data :: real
  r_error :: real
  r_sensor :: pyval
  r_ID :: "int option"
  r_DTG :: "int option"

definition Record ::
  "real \<Rightarrow> real \<Rightarrow> pyval \<Rightarrow> int option \<Rightarrow> int option \<Rightarrow> error + record_obj" where
  "Record data err sensor ID DTG =
     (if \<not> truthy sensor then
        Inl (ModelException ''Records must belong to a valid sensor'')
      else Inr \<lparr>r_data = data, r_error = err, r_sensor = sensor,
                r_ID = ID, r_DTG = DTG\<rparr>)"

record recordset =
  rs_times :: "int option list"
  rs_data :: "real list"
  rs_error :: "real list"
  rs_sensor :: pyval
  rs_N :: int

text \<open>
  \<^verbatim>\<open>RecordSet.__init__\<close>: the three comprehensions accept the empty list;
  \<^verbatim>\<open>records[0]\<close> does not.
\<close>

definition RecordSet :: "record_obj list \<Rightarrow> error + recordset" where
  "RecordSet records =
     (let times = map r_DTG records;
          data = map r_data records;
          err = map r_error records
      in case records of
           [] \<Rightarrow> Inl IndexError
         | r # rest \<Rightarrow>
             Inr \<lparr>rs_times = times, rs_data = data, rs_error = err,
                  rs_sensor = r_sensor r, rs_N = int (length times)\<rparr>)"

subsection \<open>Dotted names\<close>

text \<open>\<^verbatim>\<open>name.split('.')\<close>: every dot separates; the empty string gives one empty part.\<close>

fun split_dot :: "string \<Rightarrow> string list" where
  "split_dot [] = [[]]"
| "split_dot (c # cs) =
     (if c = CHR ''.'' then [] # split_dot cs
      else (case split_dot cs of
              [] \<Rightarrow> [[c]]
            | w # ws \<Rightarrow> (c # w) # ws))"

text \<open>\<^verbatim>\<open>Sep(*args)\<close>, that is \<^verbatim>\<open>'.'.join(args)\<close>.\<close>

fun Sep :: "string list \<Rightarrow> string" where
  "Sep [] = []"
| "Sep [w] = w"
| "Sep (w # ws) = w @ ''.'' @ Sep ws"

subsection \<open>The store\<close>

text \<open>
  The tables of the schema, one record type per table, the columns under the names the
  queries use. A foreign key has the referenced column's name in the schema
  (\<^verbatim>\<open>ownerID\<close> in \<^verbatim>\<open>Projects\<close>); here it carries the referencing table as well
  (\<open>projOwnerID\<close>).
\<close>

record ownerRow =
  ownerName :: string
  ownerDesc :: string
  ownerID :: int
  ownerDTG :: int

record projRow =
  projName :: string
  projDesc :: string
  projID :: int
  projDTG :: int
  projOwnerID :: int

record sysRow =
  sysName :: string
  sysDesc :: string
  sysID :: int
  sysDTG :: int
  sysProjID :: int

record mfgRow =
  mfgName :: string
  mfgDesc :: string
  mfgURL :: string
  mfgID :: int
  mfgDTG :: int

record devRow =
  devName :: string
  devDesc :: string
  devSysID :: int
  devURL :: string
  devMfgID :: int
  devID :: int
  devDTG :: int

record unitRow =
  unitShort :: string
  unitLong :: string
  unitDesc :: string
  unitID :: int

record senRow =
  senName :: string
  senDesc :: string
  senDevID :: int
  senUnitID :: int
  senID :: int
  senDTG :: int

record recRow =
  recData :: real
  recError :: real
  recDTG :: int
  recID :: int
  recSenID :: int

text \<open>
  The connection: the tables, \<open>recTable\<close> being the table \<^verbatim>\<open>self.recTable\<close> names,
  and the server's clock, which stamps an inserted row.
\<close>

record db =
  Owners :: "ownerRow list"
  Projects :: "projRow list"
  Systems :: "sysRow list"
  Manufacturers :: "mfgRow list"
  Devices :: "devRow list"
  UnitsTable :: "unitRow list"
  Sensors :: "senRow list"
  recTable :: "recRow list"
  now :: int

text \<open>
  \<^verbatim>\<open>Select\<close> and \<^verbatim>\<open>Insert\<close> write their operands into the text of the query: a
  number as \<^verbatim>\<open>str(val)\<close>, a string between two apostrophes (\<^verbatim>\<open>Enquote\<close>), with
  nothing escaped. A quoted text is read back as the string it was made from when that
  string holds no apostrophe and no backslash (\<open>sql_safe\<close>); then the query is the one
  intended.
\<close>

datatype sqlval = Plain int | Enquote string

definition sql_safe :: "string \<Rightarrow> bool" where
  "sql_safe s \<longleftrightarrow> CHR 0x27 \<notin> set s \<and> CHR 0x5C \<notin> set s"

fun well_quoted :: "sqlval \<Rightarrow> bool" where
  "well_quoted (Plain i) = True"
| "well_quoted (Enquote s) = sql_safe s"

text \<open>
  Modelled from the spec: the MySQL server behind \<^verbatim>\<open>cursor.execute\<close> is not part of
  the source. When an operand holds an apostrophe or a backslash, the text sent is
  another query or no query at all. What the server then returns, and what an insert
  then leaves in the store, is decided by the server and not by the source:
  \<open>unescaped_select\<close> and \<open>unescaped_insert\<close> stand for it, as functions of the store,
  the table and the operands about which nothing is known.
\<close>

definition unescaped_select :: "db \<Rightarrow> string \<Rightarrow> sqlval list \<Rightarrow> error + 'r list" where
  "unescaped_select = undefined"

definition unescaped_insert :: "db \<Rightarrow> string \<Rightarrow> sqlval list \<Rightarrow> (error + int) \<times> db" where
  "unescaped_insert = undefined"

text \<open>
  The condition builders: the predicate a descriptor stands for on a column, once its
  operand has been read back as the value it was written from.
\<close>

definition EQ :: "'a \<Rightarrow> 'a \<Rightarrow> bool" where
  "EQ val x = (x = val)"

definition NEQ :: "'a \<Rightarrow> 'a \<Rightarrow> bool" where
  "NEQ val x = (x \<noteq> val)"

definition LT :: "'a::linorder \<Rightarrow> 'a \<Rightarrow> bool" where
  "LT val x = (x < val)"

definition LE :: "'a::linorder \<Rightarrow> 'a \<Rightarrow> bool" where
  "LE val x = (x \<le> val)"

definition GT :: "'a::linorder \<Rightarrow> 'a \<Rightarrow> bool" where
  "GT val x = (x > val)"

definition GE :: "'a::linorder \<Rightarrow> 'a \<Rightarrow> bool" where
  "GE val x = (x \<ge> val)"

definition InRange :: "'a::linorder \<Rightarrow> 'a \<Rightarrow> 'a \<Rightarrow> bool" where
  "InRange low high x = (low \<le> x \<and> x \<le> high)"

text \<open>
  Modelled from the spec: the answer of the server to the query intended. A selection
  returns the rows of the table that satisfy every condition (equality, order,
  inclusive range; equality of strings is exact), in insertion order or sorted by the
  ordering column; an insertion appends one row under a fresh positive identifier
  (\<^verbatim>\<open>AUTO_INCREMENT\<close>, one above the largest in the table), which
  \<^verbatim>\<open>getlastrowid\<close> returns.
\<close>

definition rows_where :: "'r list \<Rightarrow> ('r \<Rightarrow> bool) list \<Rightarrow> 'r list" where
  "rows_where table conds = filter (\<lambda>r. list_all (\<lambda>c. c r) conds) table"

text \<open>
  \<^verbatim>\<open>Select\<close> on the table named \<open>tname\<close>, whose rows are \<open>table\<close>. \<open>operands\<close>
  are the values written into the text, in the order of the keyword arguments;
  \<open>conds\<close> are the conditions they make when the text is well quoted.
\<close>

definition Select ::
  "db \<Rightarrow> string \<Rightarrow> sqlval list \<Rightarrow> 'r list \<Rightarrow> ('r \<Rightarrow> bool) list \<Rightarrow> error + 'r list" where
  "Select d tname operands table conds =
     (if list_all well_quoted operands then Inr (rows_where table conds)
      else unescaped_select d tname operands)"

text \<open>
  The query of \<^verbatim>\<open>GetRecords\<close>, ordered by a column. Its operands are an identifier
  and two timestamps, whose text holds no apostrophe and no backslash.
\<close>

definition Select_order ::
  "'r list \<Rightarrow> ('r \<Rightarrow> 'k::linorder) \<Rightarrow> ('r \<Rightarrow> bool) list \<Rightarrow> 'r list" where
  "Select_order table col conds = sort_key col (rows_where table conds)"

fun max_id :: "int list \<Rightarrow> int" where
  "max_id [] = 0"
| "max_id (i # ids) = max i (max_id ids)"

text \<open>
  \<^verbatim>\<open>Insert\<close> into the table named \<open>tname\<close>, whose identifiers are \<open>ids\<close>.
  \<open>vals\<close> are the values written into the text; \<open>store\<close> gives the store with the
  new row under the identifier the server assigns.
\<close>

definition Insert ::
  "db \<Rightarrow> string \<Rightarrow> sqlval list \<Rightarrow> int list \<Rightarrow> (int \<Rightarrow> db) \<Rightarrow> (error + int) \<times> db" where
  "Insert d tname vals ids store =
     (if list_all well_quoted vals then
        (let lastID = 1 + max_id ids in (Inr lastID, store lastID))
      else unescaped_insert d tname vals)"

text \<open>\<^verbatim>\<open>if ID:\<close> on an optional identifier: \<^verbatim>\<open>None\<close> and \<^verbatim>\<open>0\<close> are false.\<close>

definition ID_given :: "int option \<Rightarrow> bool" where
  "ID_given ID = (case ID of None \<Rightarrow> False | Some i \<Rightarrow> i \<noteq> 0)"

text \<open>
  An identifier attribute written into a query: \<^verbatim>\<open>str(None)\<close> is the text
  \<^verbatim>\<open>None\<close>, which the server rejects.
\<close>

definition sql_ID :: "pyval \<Rightarrow> error + int" where
  "sql_ID v =
     (case attr_ID v of
        Inl e \<Rightarrow> Inl e
      | Inr None \<Rightarrow> Inl MySQLError
      | Inr (Some i) \<Rightarrow> Inr i)"

subsection \<open>Lookups\<close>

text \<open>
  Each \<^verbatim>\<open>Get...\<close> selects its rows by identifier or by name and then builds the object
  from the first row; the second half is the function \<open>..._of_rows\<close>.
\<close>

definition Owner_of_rows :: "ownerRow list \<Rightarrow> error + pyval" where
  "Owner_of_rows rows =
     (if rows = [] then Inr PyNone
      else let row = hd rows in
        Owner (ownerName row) (ownerDesc row) (Some (ownerID row)) (Some (ownerDTG row)))"

definition GetOwner :: "db \<Rightarrow> string \<Rightarrow> int option \<Rightarrow> error + pyval" where
  "GetOwner d name ID =
     (case (if ID_given ID then
              Select d ''Owners'' [Plain (the ID)] (Owners d) [EQ (the ID) \<circ> ownerID]
            else
              Select d ''Owners'' [Enquote name] (Owners d) [EQ name \<circ> ownerName]) of
        Inl e \<Rightarrow> Inl e
      | Inr rows \<Rightarrow> Owner_of_rows rows)"

definition Project_of_rows :: "db \<Rightarrow> projRow list \<Rightarrow> error + pyval" where
  "Project_of_rows d rows =
     (if rows = [] then Inr PyNone
      else let row = hd rows in
        (case GetOwner d [] (Some (projOwnerID row)) of
           Inl e \<Rightarrow> Inl e
         | Inr owner \<Rightarrow>
             Project (projName row) (projDesc row) owner
               (Some (projID row)) (Some (projDTG row))))"

definition GetProject :: "db \<Rightarrow> string \<Rightarrow> int option \<Rightarrow> error + pyval" where
  "GetProject d name ID =
     (case (if ID_given ID then
              Select d ''Projects'' [Plain (the ID)] (Projects d) [EQ (the ID) \<circ> projID]
            else
              (case split_dot name of
                 [oName, pName] \<Rightarrow>
                   (case GetOwner d oName None of
                      Inl e \<Rightarrow> Inl e
                    | Inr owner \<Rightarrow>
                        if \<not> truthy owner then Inl (DatabaseException ''Invalid owner name'')
                        else
                          (case sql_ID owner of
                             Inl e \<Rightarrow> Inl e
                           | Inr oid \<Rightarrow>
                               Select d ''Projects'' [Enquote pName, Plain oid] (Projects d)
                                 [EQ pName \<circ> projName, EQ oid \<circ> projOwnerID]))
               | _ \<Rightarrow> Inl ValueError)) of
        Inl e \<Rightarrow> Inl e
      | Inr rows \<Rightarrow> Project_of_rows d rows)"

definition System_of_rows :: "db \<Rightarrow> sysRow list \<Rightarrow> error + pyval" where
  "System_of_rows d rows =
     (if rows = [] then Inr PyNone
      else let row = hd rows in
        (case GetProject d [] (Some (sysProjID row)) of
           Inl e \<Rightarrow> Inl e
         | Inr project \<Rightarrow>
             System (sysName row) (sysDesc row) project
               (Some (sysID row)) (Some (sysDTG row))))"

definition GetSystem :: "db \<Rightarrow> string \<Rightarrow> int option \<Rightarrow> error + pyval" where
  "GetSystem d name ID =
     (case (if ID_given ID then
              Select d ''Systems'' [Plain (the ID)] (Systems d) [EQ (the ID) \<circ> sysID]
            else
              (case split_dot name of
                 [oName, pName, sName] \<Rightarrow>
                   (case GetProject d (Sep [oName, pName]) None of
                      Inl e \<Rightarrow> Inl e
                    | Inr project \<Rightarrow>
                        if \<not> truthy project then Inl (DatabaseException ''Invalid project name'')
                        else
                          (case sql_ID project of
                             Inl e \<Rightarrow> Inl e
                           | Inr pid \<Rightarrow>
                               Select d ''Systems'' [Enquote sName, Plain pid] (Systems d)
                                 [EQ sName \<circ> sysName, EQ pid \<circ> sysProjID]))
               | _ \<Rightarrow> Inl ValueError)) of
        Inl e \<Rightarrow> Inl e
      | Inr rows \<Rightarrow> System_of_rows d rows)"

definition Manufacturer_of_rows :: "mfgRow list \<Rightarrow> error + pyval" where
  "Manufacturer_of_rows rows =
     (if rows = [] then Inr PyNone
      else let row = hd rows in
        Manufacturer (mfgName row) (mfgDesc row) (mfgURL row)
          (Some (mfgID row)) (Some (mfgDTG row)))"

definition GetManufacturer :: "db \<Rightarrow> string \<Rightarrow> int option \<Rightarrow> error + pyval" where
  "GetManufacturer d name ID =
     (case (if ID_given ID then
              Select d ''Manufacturers'' [Plain (the ID)] (Manufacturers d) [EQ (the ID) \<circ> mfgID]
            else
              Select d ''Manufacturers'' [Enquote name] (Manufacturers d) [EQ name \<circ> mfgName]) of
        Inl e \<Rightarrow> Inl e
      | Inr rows \<Rightarrow> Manufacturer_of_rows rows)"

definition Device_of_rows :: "db \<Rightarrow> devRow list \<Rightarrow> error + pyval" where
  "Device_of_rows d rows =
     (if rows = [] then Inr PyNone
      else let row = hd rows in
        (case GetSystem d [] (Some (devSysID row)) of
           Inl e \<Rightarrow> Inl e
         | Inr system \<Rightarrow>
             (case GetManufacturer d [] (Some (devMfgID row)) of
                Inl e \<Rightarrow> Inl e
              | Inr mfg \<Rightarrow>
                  Device (devName row) (devDesc row) system (devURL row) mfg
                    (Some (devID row)) (Some (devDTG row)))))"

definition GetDevice :: "db \<Rightarrow> string \<Rightarrow> int option \<Rightarrow> error + pyval" where
  "GetDevice d name ID =
     (case (if ID_given ID then
              Select d ''Devices'' [Plain (the ID)] (Devices d) [EQ (the ID) \<circ> devID]
            else
              (case split_dot name of
                 [oName, pName, sName, dName] \<Rightarrow>
                   (case GetSystem d (Sep [oName, pName, sName]) None of
                      Inl e \<Rightarrow> Inl e
                    | Inr system \<Rightarrow>
                        if \<not> truthy system then Inl (DatabaseException ''System does not exist'')
                        else
                          (case sql_ID system of
                             Inl e \<Rightarrow> Inl e
                           | Inr sid \<Rightarrow>
                               Select d ''Devices'' [Enquote dName, Plain sid] (Devices d)
                                 [EQ dName \<circ> devName, EQ sid \<circ> devSysID]))
               | _ \<Rightarrow> Inl ValueError)) of
        Inl e \<Rightarrow> Inl e
      | Inr rows \<Rightarrow> Device_of_rows d rows)"

definition Units_of_rows :: "unitRow list \<Rightarrow> error + pyval" where
  "Units_of_rows rows =
     (if rows = [] then Inr PyNone
      else let row = hd rows in
        Units (unitShort row) (unitLong row) (unitDesc row) (Some (unitID row)))"

definition GetUnits :: "db \<Rightarrow> string \<Rightarrow> int option \<Rightarrow> error + pyval" where
  "GetUnits d long ID =
     (case (if ID_given ID then
              Select d ''Units'' [Plain (the ID)] (UnitsTable d) [EQ (the ID) \<circ> unitID]
            else
              Select d ''Units'' [Enquote long] (UnitsTable d) [EQ long \<circ> unitLong]) of
        Inl e \<Rightarrow> Inl e
      | Inr rows \<Rightarrow> Units_of_rows rows)"

definition Sensor_of_rows :: "db \<Rightarrow> senRow list \<Rightarrow> error + pyval" where
  "Sensor_of_rows d rows =
     (if rows = [] then Inr PyNone
      else let row = hd rows in
        (case GetDevice d [] (Some (senDevID row)) of
           Inl e \<Rightarrow> Inl e
         | Inr device \<Rightarrow>
             (case GetUnits d [] (Some (senUnitID row)) of
                Inl e \<Rightarrow> Inl e
              | Inr units \<Rightarrow>
                  Sensor (senName row) (senDesc row) device units
                    (Some (senID row)) (Some (senDTG row)))))"

definition GetSensor :: "db \<Rightarrow> string \<Rightarrow> int option \<Rightarrow> error + pyval" where
  "GetSensor d name ID =
     (case (if ID_given ID then
              Select d ''Sensors'' [Plain (the ID)] (Sensors d) [EQ (the ID) \<circ> senID]
            else
              (case split_dot name of
                 [oName, pName, sName, dName, SName] \<Rightarrow>
                   (case GetDevice d (Sep [oName, pName, sName, dName]) None of
                      Inl e \<Rightarrow> Inl e
                    | Inr device \<Rightarrow>
                        if \<not> truthy device then Inl (DatabaseException ''Device not found'')
                        else
                          (case sql_ID device of
                             Inl e \<Rightarrow> Inl e
                           | Inr did \<Rightarrow>
                               Select d ''Sensors'' [Enquote SName, Plain did] (Sensors d)
                                 [EQ SName \<circ> senName, EQ did \<circ> senDevID]))
               | _ \<Rightarrow> Inl ValueError)) of
        Inl e \<Rightarrow> Inl e
      | Inr rows \<Rightarrow> Sensor_of_rows d rows)"

subsection \<open>Creation\<close>

text \<open>
  Each \<^verbatim>\<open>CreateNew...\<close> returns its result together with the database it leaves
  behind. The object is constructed last, from the identifier and the timestamp of the
  row that has just been inserted.
\<close>

definition CreateNewOwner :: "db \<Rightarrow> string \<Rightarrow> string \<Rightarrow> (error + pyval) \<times> db" where
  "CreateNewOwner d name desc =
     (case GetOwner d name None of
        Inl e \<Rightarrow> (Inl e, d)
      | Inr found \<Rightarrow>
          if truthy found then
            (Inl (DatabaseException ''This owner already exists in the databse''), d)
          else
            (case Insert d ''Owners'' [Enquote name, Enquote desc] (map ownerID (Owners d))
                    (\<lambda>i. d\<lparr>Owners := Owners d @ [\<lparr>ownerName = name, ownerDesc = desc, ownerID = i,
                                                   ownerDTG = now d\<rparr>]\<rparr>) of
                (Inl e, d') \<Rightarrow> (Inl e, d')
              | (Inr ID, d') \<Rightarrow>
                  (case Select d' ''Owners'' [Plain ID] (Owners d') [EQ ID \<circ> ownerID] of
                     Inl e \<Rightarrow> (Inl e, d')
                   | Inr sel \<Rightarrow>
                       if sel = [] then (Inl IndexError, d')
                       else (Owner name desc (Some ID) (Some (ownerDTG (hd sel))), d'))))"

definition CreateNewProject :: "db \<Rightarrow> string \<Rightarrow> string \<Rightarrow> (error + pyval) \<times> db" where
  "CreateNewProject d name desc =
     (case split_dot name of
        [oName, pName] \<Rightarrow>
          (case GetProject d name None of
             Inl e \<Rightarrow> (Inl e, d)
           | Inr found \<Rightarrow>
               if truthy found then (Inl (DatabaseException ''Project already exists''), d)
               else
                 (case GetOwner d oName None of
                    Inl e \<Rightarrow> (Inl e, d)
                  | Inr owner \<Rightarrow>
                      (case sql_ID owner of
                         Inl e \<Rightarrow> (Inl e, d)
                       | Inr oid \<Rightarrow>
                           (case Insert d ''Projects'' [Enquote pName, Enquote desc, Plain oid]
                                   (map projID (Projects d))
                                   (\<lambda>i. d\<lparr>Projects := Projects d @ [\<lparr>projName = pName, projDesc = desc, projID = i,
                                                     projDTG = now d, projOwnerID = oid\<rparr>]\<rparr>) of
                               (Inl e, d') \<Rightarrow> (Inl e, d')
                             | (Inr ID, d') \<Rightarrow>
                                 (case Select d' ''Projects'' [Plain ID] (Projects d') [EQ ID \<circ> projID] of
                                    Inl e \<Rightarrow> (Inl e, d')
                                  | Inr sel \<Rightarrow>
                                      if sel = [] then (Inl IndexError, d')
                                      else (Project pName desc owner (Some ID) (Some (projDTG (hd sel))), d'))))))
      | _ \<Rightarrow> (Inl ValueError, d))"

definition CreateNewSystem :: "db \<Rightarrow> string \<Rightarrow> string \<Rightarrow> (error + pyval) \<times> db" where
  "CreateNewSystem d name desc =
     (case split_dot name of
        [oName, pName, sName] \<Rightarrow>
          (case GetSystem d name None of
             Inl e \<Rightarrow> (Inl e, d)
           | Inr found \<Rightarrow>
               if truthy found then (Inl (DatabaseException ''System already exists''), d)
               else
                 (case GetProject d (Sep [oName, pName]) None of
                    Inl e \<Rightarrow> (Inl e, d)
                  | Inr project \<Rightarrow>
                      (case sql_ID project of
                         Inl e \<Rightarrow> (Inl e, d)
                       | Inr pid \<Rightarrow>
                           (case Insert d ''Systems'' [Enquote sName, Enquote desc, Plain pid]
                                   (map sysID (Systems d))
                                   (\<lambda>i. d\<lparr>Systems := Systems d @ [\<lparr>sysName = sName, sysDesc = desc, sysID = i,
                                                     sysDTG = now d, sysProjID = pid\<rparr>]\<rparr>) of
                               (Inl e, d') \<Rightarrow> (Inl e, d')
                             | (Inr ID, d') \<Rightarrow>
                                 (case Select d' ''Systems'' [Plain ID] (Systems d') [EQ ID \<circ> sysID] of
                                    Inl e \<Rightarrow> (Inl e, d')
                                  | Inr sel \<Rightarrow>
                                      if sel = [] then (Inl IndexError, d')
                                      else (System sName desc project (Some ID) (Some (sysDTG (hd sel))), d'))))))
      | _ \<Rightarrow> (Inl ValueError, d))"

definition CreateNewManufacturer ::
  "db \<Rightarrow> string \<Rightarrow> string \<Rightarrow> string \<Rightarrow> (error + pyval) \<times> db" where
  "CreateNewManufacturer d name desc URL =
     (case GetManufacturer d name None of
        Inl e \<Rightarrow> (Inl e, d)
      | Inr found \<Rightarrow>
          if truthy found then (Inl (DatabaseException ''Manufacturer already exists''), d)
          else
            (case Insert d ''Manufacturers'' [Enquote name, Enquote desc, Enquote URL]
                    (map mfgID (Manufacturers d))
                    (\<lambda>i. d\<lparr>Manufacturers := Manufacturers d @ [\<lparr>mfgName = name, mfgDesc = desc, mfgURL = URL, mfgID = i,
                                              mfgDTG = now d\<rparr>]\<rparr>) of
                (Inl e, d') \<Rightarrow> (Inl e, d')
              | (Inr ID, d') \<Rightarrow>
                  (case Select d' ''Manufacturers'' [Plain ID] (Manufacturers d') [EQ ID \<circ> mfgID] of
                     Inl e \<Rightarrow> (Inl e, d')
                   | Inr sel \<Rightarrow>
                       if sel = [] then (Inl IndexError, d')
                       else (Manufacturer name desc URL (Some ID) (Some (mfgDTG (hd sel))), d'))))"

text \<open>
  In \<^verbatim>\<open>CreateNewDevice\<close> and \<^verbatim>\<open>CreateNewSensor\<close> the keyword arguments of
  \<^verbatim>\<open>Insert\<close> are evaluated first, in the order written (a missing attribute raises
  there); the server sees the query, and rejects a \<^verbatim>\<open>None\<close>, after that.
\<close>

definition CreateNewDevice ::
  "db \<Rightarrow> string \<Rightarrow> string \<Rightarrow> string \<Rightarrow> pyval \<Rightarrow> (error + pyval) \<times> db" where
  "CreateNewDevice d name desc URL mfg =
     (case split_dot name of
        [oName, pName, sName, dName] \<Rightarrow>
          if \<not> truthy mfg then (Inl (DatabaseException ''Manufacturer required''), d)
          else
            (case GetDevice d name None of
               Inl e \<Rightarrow> (Inl e, d)
             | Inr found \<Rightarrow>
                 if truthy found then (Inl (DatabaseException ''Device already exists''), d)
                 else
                   (case GetSystem d (Sep [oName, pName, sName]) None of
                      Inl e \<Rightarrow> (Inl e, d)
                    | Inr system \<Rightarrow>
                        (case attr_ID mfg of
                           Inl e \<Rightarrow> (Inl e, d)
                         | Inr mfg_ID \<Rightarrow>
                             (case attr_ID system of
                                Inl e \<Rightarrow> (Inl e, d)
                              | Inr system_ID \<Rightarrow>
                                  (case (mfg_ID, system_ID) of
                                     (Some mid, Some sid) \<Rightarrow>
                                       (case Insert d ''Devices'' [Enquote dName, Enquote desc, Enquote URL, Plain mid, Plain sid]
                                               (map devID (Devices d))
                                               (\<lambda>i. d\<lparr>Devices := Devices d @ [\<lparr>devName = dName, devDesc = desc, devSysID = sid,
                                                                 devURL = URL, devMfgID = mid, devID = i,
                                                                 devDTG = now d\<rparr>]\<rparr>) of
                                           (Inl e, d') \<Rightarrow> (Inl e, d')
                                         | (Inr ID, d') \<Rightarrow>
                                             (case Select d' ''Devices'' [Plain ID] (Devices d') [EQ ID \<circ> devID] of
                                                Inl e \<Rightarrow> (Inl e, d')
                                              | Inr sel \<Rightarrow>
                                                  if sel = [] then (Inl IndexError, d')
                                                  else (Device dName desc system URL mfg (Some ID) (Some (devDTG (hd sel))), d')))
                                   | _ \<Rightarrow> (Inl MySQLError, d))))))
      | _ \<Rightarrow> (Inl ValueError, d))"

definition CreateNewUnits ::
  "db \<Rightarrow> string \<Rightarrow> string \<Rightarrow> string \<Rightarrow> (error + pyval) \<times> db" where
  "CreateNewUnits d short long desc =
     (case GetUnits d long None of
        Inl e \<Rightarrow> (Inl e, d)
      | Inr found \<Rightarrow>
          if truthy found then (Inl (DatabaseException ''Units already exist''), d)
          else
            (case Insert d ''Units'' [Enquote short, Enquote long, Enquote desc]
                    (map unitID (UnitsTable d))
                    (\<lambda>i. d\<lparr>UnitsTable := UnitsTable d @ [\<lparr>unitShort = short, unitLong = long, unitDesc = desc,
                                                  unitID = i\<rparr>]\<rparr>) of
              (Inl e, d') \<Rightarrow> (Inl e, d')
            | (Inr ID, d') \<Rightarrow> (Units short long desc (Some ID), d')))"

definition CreateNewSensor ::
  "db \<Rightarrow> string \<Rightarrow> string \<Rightarrow> pyval \<Rightarrow> (error + pyval) \<times> db" where
  "CreateNewSensor d name desc units =
     (case split_dot name of
        [oName, pName, sName, dName, SName] \<Rightarrow>
          if \<not> truthy units then (Inl (DatabaseException ''Units required''), d)
          else
            (case GetSensor d name None of
               Inl e \<Rightarrow> (Inl e, d)
             | Inr found \<Rightarrow>
                 if truthy found then (Inl (DatabaseException ''Sensor already exists''), d)
                 else
                   (case GetDevice d (Sep [oName, pName, sName, dName]) None of
                      Inl e \<Rightarrow> (Inl e, d)
                    | Inr device \<Rightarrow>
                        (case attr_ID device of
                           Inl e \<Rightarrow> (Inl e, d)
                         | Inr device_ID \<Rightarrow>
                             (case attr_ID units of
                                Inl e \<Rightarrow> (Inl e, d)
                              | Inr units_ID \<Rightarrow>
                                  (case (device_ID, units_ID) of
                                     (Some did, Some uid) \<Rightarrow>
                                       (case Insert d ''Sensors'' [Enquote SName, Enquote desc, Plain did, Plain uid]
                                               (map senID (Sensors d))
                                               (\<lambda>i. d\<lparr>Sensors := Sensors d @ [\<lparr>senName = SName, senDesc = desc, senDevID = did,
                                                                 senUnitID = uid, senID = i, senDTG = now d\<rparr>]\<rparr>) of
                                           (Inl e, d') \<Rightarrow> (Inl e, d')
                                         | (Inr ID, d') \<Rightarrow>
                                             (case Select d' ''Sensors'' [Plain ID] (Sensors d') [EQ ID \<circ> senID] of
                                                Inl e \<Rightarrow> (Inl e, d')
                                              | Inr sel \<Rightarrow>
                                                  if sel = [] then (Inl IndexError, d')
                                                  else (Sensor SName desc device units (Some ID) (Some (senDTG (hd sel))), d')))
                                   | _ \<Rightarrow> (Inl MySQLError, d))))))
      | _ \<Rightarrow> (Inl ValueError, d))"

subsection \<open>Reading records\<close>

text \<open>The loop of \<^verbatim>\<open>GetRecords\<close>: one \<^verbatim>\<open>Record\<close> per row, appended in row order.\<close>

fun build_records :: "pyval \<Rightarrow> recRow list \<Rightarrow> error + record_obj list" where
  "build_records sensor [] = Inr []"
| "build_records sensor (row # rows) =
     (case Record (recData row) (recError row) sensor (Some (recID row)) (Some (recDTG row)) of
        Inl e \<Rightarrow> Inl e
      | Inr r \<Rightarrow>
          (case build_records sensor rows of
             Inl e \<Rightarrow> Inl e
           | Inr rs \<Rightarrow> Inr (r # rs)))"

definition GetRecords :: "db \<Rightarrow> pyval \<Rightarrow> int \<Rightarrow> int \<Rightarrow> error + recordset option" where
  "GetRecords d sensor startTime endTime =
     (if \<not> truthy sensor then Inl (DatabaseException ''Sensor Required'')
      else
        (case sql_ID sensor of
           Inl e \<Rightarrow> Inl e
         | Inr sid \<Rightarrow>
             let rows = Select_order (recTable d) recDTG
                          [EQ sid \<circ> recSenID, InRange startTime endTime \<circ> recDTG]
             in if rows = [] then Inr None
                else
                  (case build_records sensor rows of
                     Inl e \<Rightarrow> Inl e
                   | Inr records \<Rightarrow>
                       (case RecordSet records of
                          Inl e \<Rightarrow> Inl e
                        | Inr rs \<Rightarrow> Inr (Some rs)))))"

subsection \<open>Sample data\<close>

text \<open>A single measurement, with the set built from it.\<close>

definition one_record :: "record_obj list" where
  "one_record = [\<lparr>r_data = 5, r_error = 0, r_sensor = PyStr ''s'', r_ID = None, r_DTG = None\<rparr>]"

definition one_record_set :: recordset where
  "one_record_set =
     \<lparr>rs_times = [None], rs_data = [5], rs_error = [0], rs_sensor = PyStr ''s'', rs_N = 1\<rparr>"

text \<open>
  A small store: one entity on each level of the hierarchy
  (\<^verbatim>\<open>lab.nmr.cryo.probe.temp\<close>), a manufacturer, a unit, and four measurements.
\<close>

definition sample_recTable :: "recRow list" where
  "sample_recTable =
     [\<lparr>recData = 3, recError = 0, recDTG = 30, recID = 1, recSenID = 4\<rparr>,
      \<lparr>recData = 1, recError = 0, recDTG = 10, recID = 2, recSenID = 4\<rparr>,
      \<lparr>recData = 9, recError = 0, recDTG = 20, recID = 3, recSenID = 5\<rparr>,
      \<lparr>recData = 7, recError = 0, recDTG = 70, recID = 4, recSenID = 4\<rparr>]"

definition sample_db :: db where
  "sample_db =
     \<lparr>Owners = [\<lparr>ownerName = ''lab'', ownerDesc = ''the lab'', ownerID = 1, ownerDTG = 0\<rparr>],
      Projects = [\<lparr>projName = ''nmr'', projDesc = ''a project'', projID = 1, projDTG = 0,
                   projOwnerID = 1\<rparr>],
      Systems = [\<lparr>sysName = ''cryo'', sysDesc = ''a system'', sysID = 1, sysDTG = 0,
                  sysProjID = 1\<rparr>],
      Manufacturers = [\<lparr>mfgName = ''acme'', mfgDesc = ''a maker'', mfgURL = ''http://acme'',
                        mfgID = 1, mfgDTG = 0\<rparr>],
      Devices = [\<lparr>devName = ''probe'', devDesc = ''a device'', devSysID = 1,
                  devURL = ''http://probe'', devMfgID = 1, devID = 1, devDTG = 0\<rparr>],
      UnitsTable = [\<lparr>unitShort = ''K'', unitLong = ''kelvin'', unitDesc = ''temperature'',
                     unitID = 1\<rparr>],
      Sensors = [\<lparr>senName = ''temp'', senDesc = ''a sensor'', senDevID = 1, senUnitID = 1,
                  senID = 4, senDTG = 0\<rparr>],
      recTable = sample_recTable,
      now = 100\<rparr>"

definition sample_owner :: pyval where
  "sample_owner = OwnerObj ''lab'' ''the lab'' (Some 1) (Some 0)"

definition sample_project :: pyval where
  "sample_project = ProjectObj ''nmr'' ''a project'' sample_owner (Some 1) (Some 0)"

definition sample_system :: pyval where
  "sample_system = SystemObj ''cryo'' ''a system'' sample_project (Some 1) (Some 0)"

definition sample_mfg :: pyval where
  "sample_mfg = ManufacturerObj ''acme'' ''a maker'' ''http://acme'' (Some 1) (Some 0)"

definition sample_device :: pyval where
  "sample_device =
     DeviceObj ''probe'' ''a device'' sample_system ''http://probe'' sample_mfg (Some 1) (Some 0)"

definition sample_units :: pyval where
  "sample_units = UnitsObj ''K'' ''kelvin'' ''temperature'' (Some 1)"

definition sample_sensor :: pyval where
  "sample_sensor = SensorObj ''temp'' ''a sensor'' sample_device sample_units (Some 4) (Some 0)"


subsection \<open>Well-formed stores\<close>

text \<open>
  The identifier column is the primary key of its table: the identifiers of a table are
  distinct, and positive as \<^verbatim>\<open>AUTO_INCREMENT\<close> assigns them.
\<close>

definition primary_keys :: "db \<Rightarrow> bool" where
  "primary_keys d \<longleftrightarrow>
     distinct (map ownerID (Owners d)) \<and> (\<forall>r \<in> set (Owners d). 0 < ownerID r) \<and>
     distinct (map projID (Projects d)) \<and> (\<forall>r \<in> set (Projects d). 0 < projID r) \<and>
     distinct (map sysID (Systems d)) \<and> (\<forall>r \<in> set (Systems d). 0 < sysID r) \<and>
     distinct (map mfgID (Manufacturers d)) \<and> (\<forall>r \<in> set (Manufacturers d). 0 < mfgID r) \<and>
     distinct (map devID (Devices d)) \<and> (\<forall>r \<in> set (Devices d). 0 < devID r) \<and>
     distinct (map unitID (UnitsTable d)) \<and> (\<forall>r \<in> set (UnitsTable d). 0 < unitID r) \<and>
     distinct (map senID (Sensors d)) \<and> (\<forall>r \<in> set (Sensors d). 0 < senID r)"

section \<open>Properties of the model classes\<close>

text \<open>
  C7. Constructing a Project, a System or a Sensor with a parent argument that is false
  (\<^verbatim>\<open>None\<close> among others) or that is not an instance of the required parent class
  (Owner, Project, Device) raises a \<^verbatim>\<open>ModelException\<close>, whatever the other
  arguments are.
\<close>

theorem parent_type_checked:
  "(\<not> truthy owner \<or> \<not> isinstance owner Owner_cls \<longrightarrow>
      (\<exists>m. Project name desc owner ID DTG = Inl (ModelException m))) \<and>
   (\<not> truthy project \<or> \<not> isinstance project Project_cls \<longrightarrow>
      (\<exists>m. System name desc project ID DTG = Inl (ModelException m))) \<and>
   (\<not> truthy device \<or> \<not> isinstance device Device_cls \<longrightarrow>
      (\<exists>m. Sensor name desc device units ID DTG = Inl (ModelException m)))"
  by (simp add: Project_def System_def Sensor_def)

theorem parent_type_checked_witness:
  "\<not> truthy PyNone \<and> \<not> isinstance (PyStr ''lab'') Project_cls \<and>
   \<not> isinstance (OwnerObj ''lab'' ''the lab'' (Some 1) (Some 0)) Device_cls \<and>
   (\<exists>m. Project ''n'' ''d'' PyNone None None = Inl (ModelException m)) \<and>
   (\<exists>m. System ''n'' ''d'' (PyStr ''lab'') None None = Inl (ModelException m)) \<and>
   (\<exists>m. Sensor ''n'' ''d'' (OwnerObj ''lab'' ''the lab'' (Some 1) (Some 0))
           (UnitsObj ''K'' ''kelvin'' ''temperature'' (Some 1)) None None
         = Inl (ModelException m))"
  using parent_type_checked [where owner = PyNone and project = "PyStr ''lab''"
      and device = "OwnerObj ''lab'' ''the lab'' (Some 1) (Some 0)"
      and name = "''n''" and desc = "''d''" and ID = None and DTG = None
      and units = "UnitsObj ''K'' ''kelvin'' ''temperature'' (Some 1)"]
  by (simp add: isinstance_def)

text \<open>
  C8. The claim is that a Device needs a Manufacturer instance and a Sensor a Units
  instance. The constructors test the truth value of the argument only: a Device is
  built with the string \<^verbatim>\<open>'acme'\<close> as its manufacturer, a Sensor with the number 7 as
  its units.
\<close>

theorem Device_Sensor_accept_any_true_value:
  "Device ''dev'' ''a device'' sample_system ''http://x'' (PyStr ''acme'') None None
     = Inr (DeviceObj ''dev'' ''a device'' sample_system ''http://x'' (PyStr ''acme'')
              None None) \<and>
   \<not> isinstance (PyStr ''acme'') Manufacturer_cls \<and>
   Sensor ''temp'' ''a sensor'' sample_device (PyInt 7) None None
     = Inr (SensorObj ''temp'' ''a sensor'' sample_device (PyInt 7) None None) \<and>
   \<not> isinstance (PyInt 7) Units_cls"
  by (simp add: Device_def Sensor_def Group_init_def isinstance_def sample_system_def
      sample_device_def)

text \<open>
  C9. A Manufacturer whose name is longer than 12 characters is rejected with a
  \<^verbatim>\<open>ModelException\<close>: by the URL checks when the URL is bad, by the name rule of
  \<^verbatim>\<open>Group.__init__\<close> otherwise.
\<close>

theorem Manufacturer_name_bound:
  "length name > 12 \<Longrightarrow> \<exists>m. Manufacturer name desc URL ID DTG = Inl (ModelException m)"
  by (simp add: Manufacturer_def Group_init_def)

theorem Manufacturer_name_bound_witness:
  "length ''Thirteen_char'' > 12 \<and> length ''Thirteen_char'' \<le> 255 \<and>
   (\<exists>m. Manufacturer ''Thirteen_char'' ''a maker'' ''http://maker'' None None
         = Inl (ModelException m))"
  using Manufacturer_name_bound [of "''Thirteen_char''" "''a maker''" "''http://maker''" None None]
  by simp

section \<open>Properties of record sets\<close>

lemma RecordSet_fields:
  "RecordSet records = Inr rs \<Longrightarrow>
     records \<noteq> [] \<and> rs_data rs = map r_data records \<and> rs_N rs = int (length records)"
  by (auto simp: RecordSet_def Let_def split: list.splits)

lemma RecordSet_one_record: "RecordSet one_record = Inr one_record_set"
  by (simp add: RecordSet_def one_record_def one_record_set_def)

text \<open>
  C10. \<^verbatim>\<open>RecordSet([])\<close> raises \<^verbatim>\<open>IndexError\<close>; a record set that was constructed
  comes from a non-empty list, has \<open>N \<ge> 1\<close> and refers to the sensor of the first record.
\<close>

theorem RecordSet_never_empty:
  "RecordSet [] = Inl IndexError \<and>
   (RecordSet records = Inr rs \<longrightarrow>
      records \<noteq> [] \<and> rs_N rs = int (length records) \<and> rs_N rs \<ge> 1 \<and>
      rs_sensor rs = r_sensor (hd records))"
  by (auto simp: RecordSet_def Let_def split: list.splits)

theorem RecordSet_never_empty_witness:
  "RecordSet one_record = Inr one_record_set \<and> one_record \<noteq> [] \<and>
   rs_N one_record_set = 1 \<and> rs_sensor one_record_set = r_sensor (hd one_record)"
  using RecordSet_never_empty [of one_record one_record_set] RecordSet_one_record
  by (simp add: one_record_def)

section \<open>Properties of the data-access layer\<close>

subsection \<open>Reading records\<close>

lemma build_records_truthy:
  "truthy sensor \<Longrightarrow>
   build_records sensor rows =
     Inr (map (\<lambda>row. \<lparr>r_data = recData row, r_error = recError row, r_sensor = sensor,
                       r_ID = Some (recID row), r_DTG = Some (recDTG row)\<rparr>) rows)"
  by (induction rows) (simp_all add: Record_def)

lemma Select_order_records:
  "Select_order tbl recDTG [EQ sid \<circ> recSenID, InRange startTime endTime \<circ> recDTG] =
     sort_key recDTG (filter (\<lambda>r. recSenID r = sid \<and> startTime \<le> recDTG r \<and> recDTG r \<le> endTime) tbl)"
  by (simp add: Select_order_def rows_where_def EQ_def InRange_def)

text \<open>
  C4. \<^verbatim>\<open>GetRecords\<close> raises a \<^verbatim>\<open>DatabaseException\<close> when the sensor argument is
  false (\<^verbatim>\<open>None\<close>). For a sensor with an identifier, the rows it reads are a
  rearrangement of the rows of that sensor with \<open>startTime \<le> recDTG \<le> endTime\<close>, in
  ascending order of \<open>recDTG\<close>; with no such row the result is \<^verbatim>\<open>None\<close>, otherwise
  a record set holding the times, values and errors of these rows in that order.
\<close>

theorem GetRecords_range_sorted:
  "(\<not> truthy sensor \<longrightarrow> (\<exists>m. GetRecords d sensor startTime endTime = Inl (DatabaseException m))) \<and>
   (truthy sensor \<and> attr_ID sensor = Inr (Some sid) \<longrightarrow>
      (\<exists>rows. mset rows =
                 mset (filter (\<lambda>r. recSenID r = sid \<and> startTime \<le> recDTG r \<and> recDTG r \<le> endTime)
                         (recTable d)) \<and>
              sorted (map recDTG rows) \<and>
              (\<forall>r \<in> set rows. recSenID r = sid \<and> startTime \<le> recDTG r \<and> recDTG r \<le> endTime) \<and>
              (if rows = [] then GetRecords d sensor startTime endTime = Inr None
               else \<exists>rs. GetRecords d sensor startTime endTime = Inr (Some rs) \<and>
                      rs_times rs = map (\<lambda>r. Some (recDTG r)) rows \<and>
                      rs_data rs = map recData rows \<and>
                      rs_error rs = map recError rows \<and>
                      rs_sensor rs = sensor \<and>
                      rs_N rs = int (length rows))))"
proof (intro conjI impI)
  assume "\<not> truthy sensor"
  then show "\<exists>m. GetRecords d sensor startTime endTime = Inl (DatabaseException m)"
    by (simp add: GetRecords_def)
next
  assume a: "truthy sensor \<and> attr_ID sensor = Inr (Some sid)"
  define P where "P = (\<lambda>r::recRow. recSenID r = sid \<and> startTime \<le> recDTG r \<and> recDTG r \<le> endTime)"
  define rows where "rows = sort_key recDTG (filter P (recTable d))"
  have sel: "Select_order (recTable d) recDTG [EQ sid \<circ> recSenID, InRange startTime endTime \<circ> recDTG] = rows"
    by (simp add: Select_order_records rows_def P_def)
  have m: "mset rows = mset (filter P (recTable d))"
    by (simp add: rows_def)
  have s: "sorted (map recDTG rows)"
    by (simp add: rows_def)
  have r: "\<forall>r \<in> set rows. P r"
    by (simp add: rows_def)
  have g: "if rows = [] then GetRecords d sensor startTime endTime = Inr None
           else \<exists>rs. GetRecords d sensor startTime endTime = Inr (Some rs) \<and>
                  rs_times rs = map (\<lambda>r. Some (recDTG r)) rows \<and>
                  rs_data rs = map recData rows \<and>
                  rs_error rs = map recError rows \<and>
                  rs_sensor rs = sensor \<and>
                  rs_N rs = int (length rows)"
  proof (cases rows)
    case Nil
    then show ?thesis
      using a sel by (simp add: GetRecords_def sql_ID_def)
  next
    case (Cons x xs)
    have "GetRecords d sensor startTime endTime =
        (case RecordSet (map (\<lambda>row. \<lparr>r_data = recData row, r_error = recError row, r_sensor = sensor,
                       r_ID = Some (recID row), r_DTG = Some (recDTG row)\<rparr>) rows) of
           Inl e \<Rightarrow> Inl e | Inr rs \<Rightarrow> Inr (Some rs))"
      using a sel Cons by (simp add: GetRecords_def sql_ID_def build_records_truthy del: build_records.simps)
    then show ?thesis
      using Cons by (simp add: RecordSet_def comp_def)
  qed
  show "\<exists>rows. mset rows = mset (filter (\<lambda>r. recSenID r = sid \<and> startTime \<le> recDTG r \<and> recDTG r \<le> endTime)
                         (recTable d)) \<and>
              sorted (map recDTG rows) \<and>
              (\<forall>r \<in> set rows. recSenID r = sid \<and> startTime \<le> recDTG r \<and> recDTG r \<le> endTime) \<and>
              (if rows = [] then GetRecords d sensor startTime endTime = Inr None
               else \<exists>rs. GetRecords d sensor startTime endTime = Inr (Some rs) \<and>
                      rs_times rs = map (\<lambda>r. Some (recDTG r)) rows \<and>
                      rs_data rs = map recData rows \<and>
                      rs_error rs = map recError rows \<and>
                      rs_sensor rs = sensor \<and>
                      rs_N rs = int (length rows))"
    using m s r g unfolding P_def by blast
qed

lemma GetRecords_sample:
  "GetRecords sample_db sample_sensor 5 40 =
     Inr (Some \<lparr>rs_times = [Some 10, Some 30], rs_data = [1, 3], rs_error = [0, 0],
                rs_sensor = sample_sensor, rs_N = 2\<rparr>)"
  by (simp add: GetRecords_def sql_ID_def sample_sensor_def sample_db_def sample_recTable_def
      Select_order_def rows_where_def EQ_def InRange_def Record_def RecordSet_def)

lemma GetRecords_sample_none: "GetRecords sample_db sample_sensor 40 60 = Inr None"
  by (simp add: GetRecords_def sql_ID_def sample_sensor_def sample_db_def sample_recTable_def
      Select_order_def rows_where_def EQ_def InRange_def Record_def RecordSet_def)

theorem GetRecords_range_sorted_witness:
  "\<not> truthy PyNone \<and> truthy sample_sensor \<and> attr_ID sample_sensor = Inr (Some 4) \<and>
   (\<exists>m. GetRecords sample_db PyNone 5 40 = Inl (DatabaseException m)) \<and>
   (\<exists>rows. mset rows =
                 mset (filter (\<lambda>r. recSenID r = 4 \<and> 5 \<le> recDTG r \<and> recDTG r \<le> 40)
                         (recTable sample_db)) \<and>
              sorted (map recDTG rows) \<and>
              rows \<noteq> [] \<and>
              (\<exists>rs. GetRecords sample_db sample_sensor 5 40 = Inr (Some rs) \<and>
                      rs_times rs = map (\<lambda>r. Some (recDTG r)) rows \<and>
                      rs_data rs = [1, 3]))"
proof -
  have t: "truthy sample_sensor \<and> attr_ID sample_sensor = Inr (Some 4)"
    by (simp add: sample_sensor_def)
  have n: "\<not> truthy PyNone" by simp
  note th = GetRecords_range_sorted [where d = sample_db and startTime = 5 and endTime = 40 and sid = 4]
  from th [where sensor = PyNone] n
  have e: "\<exists>m. GetRecords sample_db PyNone 5 40 = Inl (DatabaseException m)" by blast
  from th [where sensor = sample_sensor] t
  obtain rows where rows: "mset rows =
                 mset (filter (\<lambda>r. recSenID r = 4 \<and> 5 \<le> recDTG r \<and> recDTG r \<le> 40)
                         (recTable sample_db))"
     "sorted (map recDTG rows)"
     "if rows = [] then GetRecords sample_db sample_sensor 5 40 = Inr None
               else \<exists>rs. GetRecords sample_db sample_sensor 5 40 = Inr (Some rs) \<and>
                      rs_times rs = map (\<lambda>r. Some (recDTG r)) rows \<and>
                      rs_data rs = map recData rows \<and>
                      rs_error rs = map recError rows \<and>
                      rs_sensor rs = sample_sensor \<and>
                      rs_N rs = int (length rows)"
    by blast
  have ne: "rows \<noteq> []"
    using rows(3) GetRecords_sample by auto
  with rows(3) GetRecords_sample
  have "\<exists>rs. GetRecords sample_db sample_sensor 5 40 = Inr (Some rs) \<and>
                      rs_times rs = map (\<lambda>r. Some (recDTG r)) rows \<and>
                      rs_data rs = [1, 3]"
    by auto
  with rows(1,2) ne e t n show ?thesis by blast
qed

subsection \<open>Dotted names\<close>

lemma split_dot_not_Nil: "split_dot s \<noteq> []"
  by (induction s) (auto split: list.splits)

lemma Sep_Cons_Cons: "Sep ((c # w) # ws) = c # Sep (w # ws)"
  by (cases ws) auto

lemma Sep_Nil_Cons: "ws \<noteq> [] \<Longrightarrow> Sep ([] # ws) = CHR ''.'' # Sep ws"
  by (cases ws) auto

lemma Sep_split_dot: "Sep (split_dot s) = s"
proof (induction s)
  case Nil
  show ?case by simp
next
  case (Cons c cs)
  show ?case
  proof (cases "c = CHR ''.''")
    case True
    then show ?thesis
      using Cons by (simp add: Sep_Nil_Cons split_dot_not_Nil)
  next
    case False
    obtain w ws where w: "split_dot cs = w # ws"
      using split_dot_not_Nil [of cs] by (cases "split_dot cs") auto
    with False Cons show ?thesis
      by (simp add: Sep_Cons_Cons)
  qed
qed

lemma split_dot_no_dot: "CHR ''.'' \<notin> set w \<Longrightarrow> split_dot w = [w]"
  by (induction w) auto

lemma split_dot_append: "CHR ''.'' \<notin> set w \<Longrightarrow> split_dot (w @ CHR ''.'' # r) = w # split_dot r"
  by (induction w) auto

lemma split_dot_Sep:
  "ws \<noteq> [] \<Longrightarrow> \<forall>w \<in> set ws. CHR ''.'' \<notin> set w \<Longrightarrow> split_dot (Sep ws) = ws"
  by (induction ws rule: Sep.induct) (auto simp: split_dot_no_dot split_dot_append)

lemma split_dot_parts: "w \<in> set (split_dot s) \<Longrightarrow> CHR ''.'' \<notin> set w"
  by (induction s arbitrary: w) (auto split: if_splits list.splits)

lemma split_dot_prefix:
  assumes "split_dot name = ws" and "ws' \<noteq> []" and "set ws' \<subseteq> set ws"
  shows "split_dot (Sep ws') = ws'"
  using assms split_dot_parts [of _ name] by (intro split_dot_Sep) auto

lemma split_dot_chars_all: "\<forall>w \<in> set (split_dot s). set w \<subseteq> set s"
  by (induction s) (auto split: list.splits)

lemma split_dot_chars: "w \<in> set (split_dot s) \<Longrightarrow> set w \<subseteq> set s"
  using split_dot_chars_all by blast


lemma sql_safe_part:
  assumes "split_dot name = ws" and "w \<in> set ws" and "sql_safe name"
  shows "sql_safe w"
  using assms split_dot_chars [of w name] by (auto simp: sql_safe_def)

lemma sql_safe_Sep: "\<forall>w \<in> set ws. sql_safe w \<Longrightarrow> sql_safe (Sep ws)"
  by (induction ws rule: Sep.induct) (auto simp: sql_safe_def)

lemma sql_safe_prefix:
  assumes "split_dot name = ws" and "set ws' \<subseteq> set ws" and "sql_safe name"
  shows "sql_safe (Sep ws')"
  using assms sql_safe_part [OF assms(1) _ assms(3)] by (intro sql_safe_Sep) auto

subsection \<open>Selecting and inserting rows\<close>

lemma max_id_ge: "i \<in> set ids \<Longrightarrow> i \<le> max_id ids"
  by (induction ids) auto

lemma max_id_nonneg: "0 \<le> max_id ids"
  by (induction ids) auto

lemma filter_key:
  "distinct (map k tbl) \<Longrightarrow> r \<in> set tbl \<Longrightarrow> filter (\<lambda>x. k x = k r) tbl = [r]"
proof (induction tbl)
  case Nil
  then show ?case by simp
next
  case (Cons a tbl)
  show ?case
  proof (cases "a = r")
    case True
    have "\<forall>x \<in> set tbl. k x \<noteq> k r"
      using Cons.prems(1) True by (auto simp: image_iff)
    then have "filter (\<lambda>x. k x = k r) tbl = []"
      by (simp add: filter_empty_conv)
    then show ?thesis using True by simp
  next
    case False
    then have r: "r \<in> set tbl" using Cons.prems(2) by simp
    have "k a \<noteq> k r" using Cons.prems(1) r by (auto simp: image_iff)
    then show ?thesis using Cons r by simp
  qed
qed

lemma rows_where_key:
  "distinct (map k tbl) \<Longrightarrow> r \<in> set tbl \<Longrightarrow> rows_where tbl [EQ (k r) \<circ> k] = [r]"
  using filter_key [of k tbl r] by (simp add: rows_where_def EQ_def)

lemma rows_where_hd:
  assumes "rows_where tbl conds \<noteq> []"
  shows "hd (rows_where tbl conds) \<in> set tbl \<and> list_all (\<lambda>c. c (hd (rows_where tbl conds))) conds"
proof -
  have "hd (rows_where tbl conds) \<in> set (rows_where tbl conds)"
    using assms by simp
  then show ?thesis by (simp add: rows_where_def)
qed


lemma Select_well_quoted:
  "list_all well_quoted operands \<Longrightarrow> Select d tname operands table conds = Inr (rows_where table conds)"
  by (simp add: Select_def)

subsection \<open>Lookup by name and by identifier, unfolded\<close>

lemma ID_given_None [simp]: "\<not> ID_given None"
  by (simp add: ID_given_def)

lemma ID_given_Some [simp]: "ID_given (Some i) \<longleftrightarrow> i \<noteq> 0"
  by (simp add: ID_given_def)


lemma sql_ID_Some: "attr_ID v = Inr (Some i) \<Longrightarrow> sql_ID v = Inr i"
  by (simp add: sql_ID_def)

lemma GetOwner_by_name:
  "sql_safe name \<Longrightarrow>
     GetOwner d name None = Owner_of_rows (rows_where (Owners d) [EQ name \<circ> ownerName])"
  by (simp add: GetOwner_def Select_def)



lemma GetOwner_by_ID:
  "i \<noteq> 0 \<Longrightarrow>
     GetOwner d name (Some i) = Owner_of_rows (rows_where (Owners d) [EQ i \<circ> ownerID])"
  by (simp add: GetOwner_def Select_def)

lemma GetManufacturer_by_ID:
  "i \<noteq> 0 \<Longrightarrow>
     GetManufacturer d name (Some i) =
       Manufacturer_of_rows (rows_where (Manufacturers d) [EQ i \<circ> mfgID])"
  by (simp add: GetManufacturer_def Select_def)

lemma GetUnits_by_ID:
  "i \<noteq> 0 \<Longrightarrow>
     GetUnits d long (Some i) = Units_of_rows (rows_where (UnitsTable d) [EQ i \<circ> unitID])"
  by (simp add: GetUnits_def Select_def)

lemma GetProject_by_ID:
  "i \<noteq> 0 \<Longrightarrow>
     GetProject d name (Some i) = Project_of_rows d (rows_where (Projects d) [EQ i \<circ> projID])"
  by (simp add: GetProject_def Select_def)

lemma GetSystem_by_ID:
  "i \<noteq> 0 \<Longrightarrow>
     GetSystem d name (Some i) = System_of_rows d (rows_where (Systems d) [EQ i \<circ> sysID])"
  by (simp add: GetSystem_def Select_def)

lemma GetDevice_by_ID:
  "i \<noteq> 0 \<Longrightarrow>
     GetDevice d name (Some i) = Device_of_rows d (rows_where (Devices d) [EQ i \<circ> devID])"
  by (simp add: GetDevice_def Select_def)

lemma GetSensor_by_ID:
  "i \<noteq> 0 \<Longrightarrow>
     GetSensor d name (Some i) = Sensor_of_rows d (rows_where (Sensors d) [EQ i \<circ> senID])"
  by (simp add: GetSensor_def Select_def)

lemma GetProject_by_name:
  assumes "split_dot name = [oName, pName]" and "sql_safe pName"
  shows "GetProject d name None =
     (case GetOwner d oName None of
        Inl e \<Rightarrow> Inl e
      | Inr owner \<Rightarrow>
          if \<not> truthy owner then Inl (DatabaseException ''Invalid owner name'')
          else (case sql_ID owner of
                  Inl e \<Rightarrow> Inl e
                | Inr oid \<Rightarrow>
                    Project_of_rows d
                      (rows_where (Projects d) [EQ pName \<circ> projName, EQ oid \<circ> projOwnerID])))"
  using assms by (simp add: GetProject_def Select_def split: sum.split)

lemma GetProject_parent_error:
  assumes "split_dot name = [oName, pName]" and "GetOwner d oName None = Inl e"
  shows "GetProject d name None = Inl e"
  using assms by (simp add: GetProject_def)


lemma GetSystem_by_name:
  assumes "split_dot name = [oName, pName, sName]" and "sql_safe sName"
  shows "GetSystem d name None =
     (case GetProject d (Sep [oName, pName]) None of
        Inl e \<Rightarrow> Inl e
      | Inr project \<Rightarrow>
          if \<not> truthy project then Inl (DatabaseException ''Invalid project name'')
          else (case sql_ID project of
                  Inl e \<Rightarrow> Inl e
                | Inr pid \<Rightarrow>
                    System_of_rows d
                      (rows_where (Systems d) [EQ sName \<circ> sysName, EQ pid \<circ> sysProjID])))"
  using assms by (simp add: GetSystem_def Select_def split: sum.split)



lemma GetDevice_by_name:
  assumes "split_dot name = [oName, pName, sName, dName]" and "sql_safe dName"
  shows "GetDevice d name None =
     (case GetSystem d (Sep [oName, pName, sName]) None of
        Inl e \<Rightarrow> Inl e
      | Inr system \<Rightarrow>
          if \<not> truthy system then Inl (DatabaseException ''System does not exist'')
          else (case sql_ID system of
                  Inl e \<Rightarrow> Inl e
                | Inr sid \<Rightarrow>
                    Device_of_rows d
                      (rows_where (Devices d) [EQ dName \<circ> devName, EQ sid \<circ> devSysID])))"
  using assms by (simp add: GetDevice_def Select_def split: sum.split)



lemma GetSensor_by_name:
  assumes "split_dot name = [oName, pName, sName, dName, SName]" and "sql_safe SName"
  shows "GetSensor d name None =
     (case GetDevice d (Sep [oName, pName, sName, dName]) None of
        Inl e \<Rightarrow> Inl e
      | Inr device \<Rightarrow>
          if \<not> truthy device then Inl (DatabaseException ''Device not found'')
          else (case sql_ID device of
                  Inl e \<Rightarrow> Inl e
                | Inr did \<Rightarrow>
                    Sensor_of_rows d
                      (rows_where (Sensors d) [EQ SName \<circ> senName, EQ did \<circ> senDevID])))"
  using assms by (simp add: GetSensor_def Select_def split: sum.split)



lemma of_rows_Nil [simp]:
  "Owner_of_rows [] = Inr PyNone"
  "Manufacturer_of_rows [] = Inr PyNone"
  "Units_of_rows [] = Inr PyNone"
  "Project_of_rows d [] = Inr PyNone"
  "System_of_rows d [] = Inr PyNone"
  "Device_of_rows d [] = Inr PyNone"
  "Sensor_of_rows d [] = Inr PyNone"
  by (simp_all add: Owner_of_rows_def Manufacturer_of_rows_def Units_of_rows_def
      Project_of_rows_def System_of_rows_def Device_of_rows_def Sensor_of_rows_def)

subsection \<open>Lookup by name: missing ancestors\<close>





subsection \<open>Lookup by name: missing leaves\<close>








subsection \<open>The sample store\<close>

lemmas sample_defs =
  sample_db_def sample_owner_def sample_project_def sample_system_def sample_mfg_def
  sample_device_def sample_units_def sample_sensor_def

lemmas lookup_defs =
  GetOwner_def GetProject_def GetSystem_def GetManufacturer_def GetDevice_def GetUnits_def
  GetSensor_def Owner_of_rows_def Project_of_rows_def System_of_rows_def
  Manufacturer_of_rows_def Device_of_rows_def Units_of_rows_def Sensor_of_rows_def
  Select_def rows_where_def sql_safe_def EQ_def sql_ID_def ID_given_def
  Owner_def Project_def System_def Manufacturer_def Device_def Units_def Sensor_def
  Group_init_def isinstance_def

lemma sample_GetOwner: "GetOwner sample_db ''lab'' None = Inr sample_owner"
  by (simp add: sample_defs lookup_defs)

lemma sample_GetProject: "GetProject sample_db ''lab.nmr'' None = Inr sample_project"
  by (simp add: sample_defs lookup_defs)

lemma sample_GetSystem: "GetSystem sample_db ''lab.nmr.cryo'' None = Inr sample_system"
  by (simp add: sample_defs lookup_defs)

lemma sample_GetDevice: "GetDevice sample_db ''lab.nmr.cryo.probe'' None = Inr sample_device"
  by (simp add: sample_defs lookup_defs)

lemma sample_GetSensor: "GetSensor sample_db ''lab.nmr.cryo.probe.temp'' None = Inr sample_sensor"
  by (simp add: sample_defs lookup_defs)



lemma sample_missing:
  "GetOwner sample_db ''nobody'' None = Inr PyNone"
  "GetProject sample_db ''lab.zz'' None = Inr PyNone"
  "GetSystem sample_db ''lab.nmr.zz'' None = Inr PyNone"
  "GetDevice sample_db ''lab.nmr.cryo.zz'' None = Inr PyNone"
  by (simp_all add: sample_defs lookup_defs)

subsection \<open>The two tiers of a lookup by name\<close>



lemma sample_tables:
  "Owners sample_db = [\<lparr>ownerName = ''lab'', ownerDesc = ''the lab'', ownerID = 1, ownerDTG = 0\<rparr>]"
  "Projects sample_db = [\<lparr>projName = ''nmr'', projDesc = ''a project'', projID = 1, projDTG = 0,
                   projOwnerID = 1\<rparr>]"
  "Systems sample_db = [\<lparr>sysName = ''cryo'', sysDesc = ''a system'', sysID = 1, sysDTG = 0,
                  sysProjID = 1\<rparr>]"
  "Manufacturers sample_db = [\<lparr>mfgName = ''acme'', mfgDesc = ''a maker'', mfgURL = ''http://acme'',
                        mfgID = 1, mfgDTG = 0\<rparr>]"
  "Devices sample_db = [\<lparr>devName = ''probe'', devDesc = ''a device'', devSysID = 1,
                  devURL = ''http://probe'', devMfgID = 1, devID = 1, devDTG = 0\<rparr>]"
  "UnitsTable sample_db = [\<lparr>unitShort = ''K'', unitLong = ''kelvin'', unitDesc = ''temperature'',
                     unitID = 1\<rparr>]"
  "Sensors sample_db = [\<lparr>senName = ''temp'', senDesc = ''a sensor'', senDevID = 1, senUnitID = 1,
                  senID = 4, senDTG = 0\<rparr>]"
  "now sample_db = 100"
  by (simp_all add: sample_db_def)

lemma sample_objects:
  "truthy sample_owner" "attr_ID sample_owner = Inr (Some 1)"
  "truthy sample_project" "attr_ID sample_project = Inr (Some 1)"
  "truthy sample_system" "attr_ID sample_system = Inr (Some 1)"
  "truthy sample_device" "attr_ID sample_device = Inr (Some 1)"
  "truthy sample_mfg" "attr_ID sample_mfg = Inr (Some 1)"
  "truthy sample_units" "attr_ID sample_units = Inr (Some 1)"
  by (simp_all add: sample_owner_def sample_project_def sample_system_def sample_device_def
      sample_mfg_def sample_units_def)


subsection \<open>Creation, unfolded\<close>

lemma Insert_well_quoted:
  "list_all well_quoted vals \<Longrightarrow>
     Insert d tname vals ids store = (Inr (1 + max_id ids), store (1 + max_id ids))"
  by (simp add: Insert_def Let_def)

lemma rows_where_inserted:
  "idcol r = i \<Longrightarrow> rows_where (tbl @ [r]) [EQ i \<circ> idcol] \<noteq> []"
  by (simp add: rows_where_def EQ_def)

lemma constructor_errors:
  "Owner name desc ID DTG = Inl e \<Longrightarrow> is_ModelException e"
  "Project name desc parent ID DTG = Inl e \<Longrightarrow> is_ModelException e"
  "System name desc parent ID DTG = Inl e \<Longrightarrow> is_ModelException e"
  "Manufacturer name desc URL ID DTG = Inl e \<Longrightarrow> is_ModelException e"
  "Device name desc parent URL mfg ID DTG = Inl e \<Longrightarrow> is_ModelException e"
  "Units short long desc ID = Inl e \<Longrightarrow> is_ModelException e"
  "Sensor name desc parent units ID DTG = Inl e \<Longrightarrow> is_ModelException e"
  by (auto simp: Owner_def Project_def System_def Manufacturer_def Device_def Units_def
      Sensor_def Group_init_def split: if_splits)

lemma unpack2:
  "\<not> (\<exists>a b. xs = [a, b]) \<Longrightarrow> (case xs of [a, b] \<Rightarrow> f a b | _ \<Rightarrow> g) = g"
  by (auto split: list.split)

lemma unpack3:
  "\<not> (\<exists>a b c. xs = [a, b, c]) \<Longrightarrow> (case xs of [a, b, c] \<Rightarrow> f a b c | _ \<Rightarrow> g) = g"
  by (auto split: list.split)

lemma unpack4:
  "\<not> (\<exists>a b c e. xs = [a, b, c, e]) \<Longrightarrow>
     (case xs of [a, b, c, e] \<Rightarrow> f a b c e | _ \<Rightarrow> g) = g"
  by (auto split: list.split)

lemma unpack5:
  "\<not> (\<exists>a b c e h. xs = [a, b, c, e, h]) \<Longrightarrow>
     (case xs of [a, b, c, e, h] \<Rightarrow> f a b c e h | _ \<Rightarrow> g) = g"
  by (auto split: list.split)

lemma constructor_errors_any_ID:
  "Owner name desc ID DTG = Inl e \<Longrightarrow> Owner name desc ID' DTG' = Inl e"
  "Project name desc parent ID DTG = Inl e \<Longrightarrow> Project name desc parent ID' DTG' = Inl e"
  "System name desc parent ID DTG = Inl e \<Longrightarrow> System name desc parent ID' DTG' = Inl e"
  "Manufacturer name desc URL ID DTG = Inl e \<Longrightarrow> Manufacturer name desc URL ID' DTG' = Inl e"
  "Device name desc parent URL mfg ID DTG = Inl e \<Longrightarrow>
     Device name desc parent URL mfg ID' DTG' = Inl e"
  "Units short long desc ID = Inl e \<Longrightarrow> Units short long desc ID' = Inl e"
  "Sensor name desc parent units ID DTG = Inl e \<Longrightarrow>
     Sensor name desc parent units ID' DTG' = Inl e"
  by (auto simp: Owner_def Project_def System_def Manufacturer_def Device_def Units_def
      Sensor_def split: if_splits sum.splits)

lemma rows_where_fresh:
  assumes "idcol r = 1 + max_id (map idcol tbl)"
  shows "rows_where (tbl @ [r]) [EQ (1 + max_id (map idcol tbl)) \<circ> idcol] = [r]"
proof -
  have "\<forall>x \<in> set tbl. idcol x \<noteq> 1 + max_id (map idcol tbl)"
  proof
    fix x assume "x \<in> set tbl"
    then have "idcol x \<in> set (map idcol tbl)" by simp
    from max_id_ge [OF this] show "idcol x \<noteq> 1 + max_id (map idcol tbl)" by simp
  qed
  then have "filter (\<lambda>x. idcol x = 1 + max_id (map idcol tbl)) tbl = []"
    by (simp add: filter_empty_conv)
  then show ?thesis
    using assms by (simp add: rows_where_def EQ_def)
qed

lemma CreateNewOwner_eq:
  assumes "sql_safe name" and "sql_safe desc"
  shows "CreateNewOwner d name desc =
     (case GetOwner d name None of
        Inl e \<Rightarrow> (Inl e, d)
      | Inr found \<Rightarrow>
          if truthy found then
            (Inl (DatabaseException ''This owner already exists in the databse''), d)
          else
            (Owner name desc (Some (1 + max_id (map ownerID (Owners d)))) (Some (now d)),
             d\<lparr>Owners := Owners d @
                [\<lparr>ownerName = name, ownerDesc = desc,
                  ownerID = 1 + max_id (map ownerID (Owners d)), ownerDTG = now d\<rparr>]\<rparr>))"
  using assms
  by (simp add: CreateNewOwner_def Insert_def Select_def Let_def rows_where_fresh
      split: sum.split)

lemma CreateNewProject_eq:
  assumes "split_dot name = [oName, pName]"
    and "sql_safe pName" and "sql_safe desc"
  shows "CreateNewProject d name desc =
     (case GetProject d name None of
        Inl e \<Rightarrow> (Inl e, d)
      | Inr found \<Rightarrow>
          if truthy found then (Inl (DatabaseException ''Project already exists''), d)
          else
            (case GetOwner d oName None of
               Inl e \<Rightarrow> (Inl e, d)
             | Inr owner \<Rightarrow>
                 (case sql_ID owner of
                    Inl e \<Rightarrow> (Inl e, d)
                  | Inr oid \<Rightarrow>
                      (Project pName desc owner
                         (Some (1 + max_id (map projID (Projects d)))) (Some (now d)),
                       d\<lparr>Projects := Projects d @
                          [\<lparr>projName = pName, projDesc = desc,
                            projID = 1 + max_id (map projID (Projects d)),
                            projDTG = now d, projOwnerID = oid\<rparr>]\<rparr>))))"
  using assms
  by (simp add: CreateNewProject_def Insert_def Select_def Let_def rows_where_fresh
      split: sum.split)

lemma CreateNewSystem_eq:
  assumes "split_dot name = [oName, pName, sName]"
    and "sql_safe sName" and "sql_safe desc"
  shows "CreateNewSystem d name desc =
     (case GetSystem d name None of
        Inl e \<Rightarrow> (Inl e, d)
      | Inr found \<Rightarrow>
          if truthy found then (Inl (DatabaseException ''System already exists''), d)
          else
            (case GetProject d (Sep [oName, pName]) None of
               Inl e \<Rightarrow> (Inl e, d)
             | Inr project \<Rightarrow>
                 (case sql_ID project of
                    Inl e \<Rightarrow> (Inl e, d)
                  | Inr pid \<Rightarrow>
                      (System sName desc project
                         (Some (1 + max_id (map sysID (Systems d)))) (Some (now d)),
                       d\<lparr>Systems := Systems d @
                          [\<lparr>sysName = sName, sysDesc = desc,
                            sysID = 1 + max_id (map sysID (Systems d)),
                            sysDTG = now d, sysProjID = pid\<rparr>]\<rparr>))))"
  using assms
  by (simp add: CreateNewSystem_def Insert_def Select_def Let_def rows_where_fresh
      split: sum.split)

lemma CreateNewManufacturer_eq:
  assumes "sql_safe name" and "sql_safe desc" and "sql_safe URL"
  shows "CreateNewManufacturer d name desc URL =
     (case GetManufacturer d name None of
        Inl e \<Rightarrow> (Inl e, d)
      | Inr found \<Rightarrow>
          if truthy found then (Inl (DatabaseException ''Manufacturer already exists''), d)
          else
            (Manufacturer name desc URL
               (Some (1 + max_id (map mfgID (Manufacturers d)))) (Some (now d)),
             d\<lparr>Manufacturers := Manufacturers d @
                [\<lparr>mfgName = name, mfgDesc = desc, mfgURL = URL,
                  mfgID = 1 + max_id (map mfgID (Manufacturers d)), mfgDTG = now d\<rparr>]\<rparr>))"
  using assms
  by (simp add: CreateNewManufacturer_def Insert_def Select_def Let_def rows_where_fresh
      split: sum.split)

lemma CreateNewUnits_eq:
  assumes "sql_safe short" and "sql_safe long" and "sql_safe desc"
  shows "CreateNewUnits d short long desc =
     (case GetUnits d long None of
        Inl e \<Rightarrow> (Inl e, d)
      | Inr found \<Rightarrow>
          if truthy found then (Inl (DatabaseException ''Units already exist''), d)
          else
            (Units short long desc (Some (1 + max_id (map unitID (UnitsTable d)))),
             d\<lparr>UnitsTable := UnitsTable d @
                [\<lparr>unitShort = short, unitLong = long, unitDesc = desc,
                  unitID = 1 + max_id (map unitID (UnitsTable d))\<rparr>]\<rparr>))"
  using assms
  by (simp add: CreateNewUnits_def Insert_def Select_def Let_def rows_where_fresh
      split: sum.split)

lemma CreateNewDevice_eq:
  assumes "split_dot name = [oName, pName, sName, dName]"
    and "sql_safe dName" and "sql_safe desc" and "sql_safe URL"
  shows "CreateNewDevice d name desc URL mfg =
     (if \<not> truthy mfg then (Inl (DatabaseException ''Manufacturer required''), d)
      else
        (case GetDevice d name None of
           Inl e \<Rightarrow> (Inl e, d)
         | Inr found \<Rightarrow>
             if truthy found then (Inl (DatabaseException ''Device already exists''), d)
             else
               (case GetSystem d (Sep [oName, pName, sName]) None of
                  Inl e \<Rightarrow> (Inl e, d)
                | Inr system \<Rightarrow>
                    (case attr_ID mfg of
                       Inl e \<Rightarrow> (Inl e, d)
                     | Inr mfg_ID \<Rightarrow>
                         (case attr_ID system of
                            Inl e \<Rightarrow> (Inl e, d)
                          | Inr system_ID \<Rightarrow>
                              (case (mfg_ID, system_ID) of
                                 (Some mid, Some sid) \<Rightarrow>
                                   (Device dName desc system URL mfg
                                      (Some (1 + max_id (map devID (Devices d))))
                                      (Some (now d)),
                                    d\<lparr>Devices := Devices d @
                                       [\<lparr>devName = dName, devDesc = desc, devSysID = sid,
                                         devURL = URL, devMfgID = mid,
                                         devID = 1 + max_id (map devID (Devices d)),
                                         devDTG = now d\<rparr>]\<rparr>)
                               | _ \<Rightarrow> (Inl MySQLError, d)))))))"
  using assms
  by (simp add: CreateNewDevice_def Insert_def Select_def Let_def rows_where_fresh
      split: sum.split option.split)

lemma CreateNewSensor_eq:
  assumes "split_dot name = [oName, pName, sName, dName, SName]"
    and "sql_safe SName" and "sql_safe desc"
  shows "CreateNewSensor d name desc units =
     (if \<not> truthy units then (Inl (DatabaseException ''Units required''), d)
      else
        (case GetSensor d name None of
           Inl e \<Rightarrow> (Inl e, d)
         | Inr found \<Rightarrow>
             if truthy found then (Inl (DatabaseException ''Sensor already exists''), d)
             else
               (case GetDevice d (Sep [oName, pName, sName, dName]) None of
                  Inl e \<Rightarrow> (Inl e, d)
                | Inr device \<Rightarrow>
                    (case attr_ID device of
                       Inl e \<Rightarrow> (Inl e, d)
                     | Inr device_ID \<Rightarrow>
                         (case attr_ID units of
                            Inl e \<Rightarrow> (Inl e, d)
                          | Inr units_ID \<Rightarrow>
                              (case (device_ID, units_ID) of
                                 (Some did, Some uid) \<Rightarrow>
                                   (Sensor SName desc device units
                                      (Some (1 + max_id (map senID (Sensors d))))
                                      (Some (now d)),
                                    d\<lparr>Sensors := Sensors d @
                                       [\<lparr>senName = SName, senDesc = desc, senDevID = did,
                                         senUnitID = uid,
                                         senID = 1 + max_id (map senID (Sensors d)),
                                         senDTG = now d\<rparr>]\<rparr>)
                               | _ \<Rightarrow> (Inl MySQLError, d)))))))"
  using assms
  by (simp add: CreateNewSensor_def Insert_def Select_def Let_def rows_where_fresh
      split: sum.split option.split)

lemma CreateNewOwner_failure:
  assumes "fst (CreateNewOwner d name desc) = Inl e" and "sql_safe name" and "sql_safe desc"
  shows "snd (CreateNewOwner d name desc) = d \<or>
         (is_ModelException e \<and>
          (\<exists>row. snd (CreateNewOwner d name desc) =
             d\<lparr>Owners := Owners d @ [row]\<rparr>))"
  using assms(1) unfolding CreateNewOwner_eq [OF assms(2) assms(3)]
  by (auto split: sum.splits if_splits dest: constructor_errors)

lemma CreateNewProject_failure:
  assumes "fst (CreateNewProject d name desc) = Inl e" and "sql_safe name" and "sql_safe desc"
  shows "snd (CreateNewProject d name desc) = d \<or>
         (is_ModelException e \<and>
          (\<exists>row. snd (CreateNewProject d name desc) =
             d\<lparr>Projects := Projects d @ [row]\<rparr>))"
proof (cases "\<exists>a b. split_dot name = [a, b]")
  case False
  then show ?thesis
    by (simp add: CreateNewProject_def unpack2)
next
  case True
  then obtain a b where s: "split_dot name = [a, b]" by blast
  have leaf: "sql_safe b"
    by (rule sql_safe_part [OF s _ assms(2)]) simp
  show ?thesis
    using assms(1) unfolding CreateNewProject_eq [OF s leaf assms(3)]
    by (auto split: sum.splits if_splits dest: constructor_errors)
qed

lemma CreateNewSystem_failure:
  assumes "fst (CreateNewSystem d name desc) = Inl e" and "sql_safe name" and "sql_safe desc"
  shows "snd (CreateNewSystem d name desc) = d \<or>
         (is_ModelException e \<and>
          (\<exists>row. snd (CreateNewSystem d name desc) =
             d\<lparr>Systems := Systems d @ [row]\<rparr>))"
proof (cases "\<exists>a b c. split_dot name = [a, b, c]")
  case False
  then show ?thesis
    by (simp add: CreateNewSystem_def unpack3)
next
  case True
  then obtain a b c where s: "split_dot name = [a, b, c]" by blast
  have leaf: "sql_safe c"
    by (rule sql_safe_part [OF s _ assms(2)]) simp
  show ?thesis
    using assms(1) unfolding CreateNewSystem_eq [OF s leaf assms(3)]
    by (auto split: sum.splits if_splits dest: constructor_errors)
qed

lemma CreateNewManufacturer_failure:
  assumes "fst (CreateNewManufacturer d name desc URL) = Inl e"
    and "sql_safe name" and "sql_safe desc" and "sql_safe URL"
  shows "snd (CreateNewManufacturer d name desc URL) = d \<or>
         (is_ModelException e \<and>
          (\<exists>row. snd (CreateNewManufacturer d name desc URL) =
             d\<lparr>Manufacturers := Manufacturers d @ [row]\<rparr>))"
  using assms(1) unfolding CreateNewManufacturer_eq [OF assms(2) assms(3) assms(4)]
  by (auto split: sum.splits if_splits dest: constructor_errors)

lemma CreateNewUnits_failure:
  assumes "fst (CreateNewUnits d short long desc) = Inl e"
    and "sql_safe short" and "sql_safe long" and "sql_safe desc"
  shows "snd (CreateNewUnits d short long desc) = d \<or>
         (is_ModelException e \<and>
          (\<exists>row. snd (CreateNewUnits d short long desc) =
             d\<lparr>UnitsTable := UnitsTable d @ [row]\<rparr>))"
  using assms(1) unfolding CreateNewUnits_eq [OF assms(2) assms(3) assms(4)]
  by (auto split: sum.splits if_splits dest: constructor_errors)

lemma CreateNewDevice_failure:
  assumes "fst (CreateNewDevice d name desc URL mfg) = Inl e"
    and "sql_safe name" and "sql_safe desc" and "sql_safe URL"
  shows "snd (CreateNewDevice d name desc URL mfg) = d \<or>
         (is_ModelException e \<and>
          (\<exists>row. snd (CreateNewDevice d name desc URL mfg) =
             d\<lparr>Devices := Devices d @ [row]\<rparr>))"
proof (cases "\<exists>a b c k. split_dot name = [a, b, c, k]")
  case False
  then show ?thesis
    by (simp add: CreateNewDevice_def unpack4)
next
  case True
  then obtain a b c k where s: "split_dot name = [a, b, c, k]" by blast
  have leaf: "sql_safe k"
    by (rule sql_safe_part [OF s _ assms(2)]) simp
  show ?thesis
    using assms(1) unfolding CreateNewDevice_eq [OF s leaf assms(3) assms(4)]
    by (auto split: sum.splits if_splits option.splits dest: constructor_errors)
qed

lemma CreateNewSensor_failure:
  assumes "fst (CreateNewSensor d name desc units) = Inl e" and "sql_safe name" and "sql_safe desc"
  shows "snd (CreateNewSensor d name desc units) = d \<or>
         (is_ModelException e \<and>
          (\<exists>row. snd (CreateNewSensor d name desc units) =
             d\<lparr>Sensors := Sensors d @ [row]\<rparr>))"
proof (cases "\<exists>a b c k h. split_dot name = [a, b, c, k, h]")
  case False
  then show ?thesis
    by (simp add: CreateNewSensor_def unpack5)
next
  case True
  then obtain a b c k h where s: "split_dot name = [a, b, c, k, h]" by blast
  have leaf: "sql_safe h"
    by (rule sql_safe_part [OF s _ assms(2)]) simp
  show ?thesis
    using assms(1) unfolding CreateNewSensor_eq [OF s leaf assms(3)]
    by (auto split: sum.splits if_splits option.splits dest: constructor_errors)
qed

lemma not_both_exceptions: "is_ModelException e \<Longrightarrow> \<not> is_DatabaseException e"
  by (cases e) auto

subsection \<open>Creation with fields that the constructor rejects\<close>

lemma CreateNewOwner_invalid:
  assumes "sql_safe name" and "sql_safe desc"
    and "GetOwner d name None = Inr PyNone" and "Owner name desc ID DTG = Inl e"
  shows "CreateNewOwner d name desc =
     (Inl e, d\<lparr>Owners := Owners d @
                [\<lparr>ownerName = name, ownerDesc = desc,
                  ownerID = 1 + max_id (map ownerID (Owners d)), ownerDTG = now d\<rparr>]\<rparr>)"
  using assms(3) constructor_errors_any_ID(1) [OF assms(4)]
  by (simp add: CreateNewOwner_eq [OF assms(1,2)])

lemma CreateNewProject_invalid:
  assumes "split_dot name = [oName, pName]" and "sql_safe name" and "sql_safe desc"
    and "GetProject d name None = Inr PyNone" and "GetOwner d oName None = Inr owner"
    and "attr_ID owner = Inr (Some oid)" and "Project pName desc owner ID DTG = Inl e"
  shows "CreateNewProject d name desc =
     (Inl e, d\<lparr>Projects := Projects d @
                [\<lparr>projName = pName, projDesc = desc,
                  projID = 1 + max_id (map projID (Projects d)), projDTG = now d,
                  projOwnerID = oid\<rparr>]\<rparr>)"
proof -
  have leaf: "sql_safe pName"
    by (rule sql_safe_part [OF assms(1) _ assms(2)]) simp
  show ?thesis
    using assms(4,5) constructor_errors_any_ID(2) [OF assms(7)]
    by (simp add: CreateNewProject_eq [OF assms(1) leaf assms(3)] sql_ID_Some [OF assms(6)])
qed

lemma CreateNewSystem_invalid:
  assumes "split_dot name = [oName, pName, sName]" and "sql_safe name" and "sql_safe desc"
    and "GetSystem d name None = Inr PyNone"
    and "GetProject d (Sep [oName, pName]) None = Inr project"
    and "attr_ID project = Inr (Some pid)" and "System sName desc project ID DTG = Inl e"
  shows "CreateNewSystem d name desc =
     (Inl e, d\<lparr>Systems := Systems d @
                [\<lparr>sysName = sName, sysDesc = desc,
                  sysID = 1 + max_id (map sysID (Systems d)), sysDTG = now d,
                  sysProjID = pid\<rparr>]\<rparr>)"
proof -
  have leaf: "sql_safe sName"
    by (rule sql_safe_part [OF assms(1) _ assms(2)]) simp
  show ?thesis
    using assms(4,5) constructor_errors_any_ID(3) [OF assms(7)]
    by (simp add: CreateNewSystem_eq [OF assms(1) leaf assms(3)] sql_ID_Some [OF assms(6)])
qed

lemma CreateNewManufacturer_invalid:
  assumes "sql_safe name" and "sql_safe desc" and "sql_safe URL"
    and "GetManufacturer d name None = Inr PyNone"
    and "Manufacturer name desc URL ID DTG = Inl e"
  shows "CreateNewManufacturer d name desc URL =
     (Inl e, d\<lparr>Manufacturers := Manufacturers d @
                [\<lparr>mfgName = name, mfgDesc = desc, mfgURL = URL,
                  mfgID = 1 + max_id (map mfgID (Manufacturers d)), mfgDTG = now d\<rparr>]\<rparr>)"
  using assms(4) constructor_errors_any_ID(4) [OF assms(5)]
  by (simp add: CreateNewManufacturer_eq [OF assms(1,2,3)])

lemma CreateNewUnits_invalid:
  assumes "sql_safe short" and "sql_safe long" and "sql_safe desc"
    and "GetUnits d long None = Inr PyNone" and "Units short long desc ID = Inl e"
  shows "CreateNewUnits d short long desc =
     (Inl e, d\<lparr>UnitsTable := UnitsTable d @
                [\<lparr>unitShort = short, unitLong = long, unitDesc = desc,
                  unitID = 1 + max_id (map unitID (UnitsTable d))\<rparr>]\<rparr>)"
  using assms(4) constructor_errors_any_ID(6) [OF assms(5)]
  by (simp add: CreateNewUnits_eq [OF assms(1,2,3)])

lemma CreateNewDevice_invalid:
  assumes "split_dot name = [oName, pName, sName, dName]"
    and "sql_safe name" and "sql_safe desc" and "sql_safe URL"
    and "truthy mfg" and "attr_ID mfg = Inr (Some mid)"
    and "GetDevice d name None = Inr PyNone"
    and "GetSystem d (Sep [oName, pName, sName]) None = Inr system"
    and "attr_ID system = Inr (Some sid)"
    and "Device dName desc system URL mfg ID DTG = Inl e"
  shows "CreateNewDevice d name desc URL mfg =
     (Inl e, d\<lparr>Devices := Devices d @
                [\<lparr>devName = dName, devDesc = desc, devSysID = sid, devURL = URL,
                  devMfgID = mid, devID = 1 + max_id (map devID (Devices d)),
                  devDTG = now d\<rparr>]\<rparr>)"
proof -
  have leaf: "sql_safe dName"
    by (rule sql_safe_part [OF assms(1) _ assms(2)]) simp
  show ?thesis
    using assms(5-9) constructor_errors_any_ID(5) [OF assms(10)]
    by (simp add: CreateNewDevice_eq [OF assms(1) leaf assms(3,4)])
qed

lemma CreateNewSensor_invalid:
  assumes "split_dot name = [oName, pName, sName, dName, SName]"
    and "sql_safe name" and "sql_safe desc"
    and "truthy units" and "attr_ID units = Inr (Some uid)"
    and "GetSensor d name None = Inr PyNone"
    and "GetDevice d (Sep [oName, pName, sName, dName]) None = Inr device"
    and "attr_ID device = Inr (Some did)"
    and "Sensor SName desc device units ID DTG = Inl e"
  shows "CreateNewSensor d name desc units =
     (Inl e, d\<lparr>Sensors := Sensors d @
                [\<lparr>senName = SName, senDesc = desc, senDevID = did, senUnitID = uid,
                  senID = 1 + max_id (map senID (Sensors d)), senDTG = now d\<rparr>]\<rparr>)"
proof -
  have leaf: "sql_safe SName"
    by (rule sql_safe_part [OF assms(1) _ assms(2)]) simp
  show ?thesis
    using assms(4-8) constructor_errors_any_ID(7) [OF assms(9)]
    by (simp add: CreateNewSensor_eq [OF assms(1) leaf assms(3)])
qed

subsection \<open>The sample store: creation\<close>

lemma sample_free:
  "GetOwner sample_db ''cryolab'' None = Inr PyNone"
  "GetManufacturer sample_db ''maker'' None = Inr PyNone"
  "GetUnits sample_db ''volt'' None = Inr PyNone"
  "GetSensor sample_db ''lab.nmr.cryo.probe.zz'' None = Inr PyNone"
  by (simp_all add: sample_defs lookup_defs)

lemma sample_CreateNewOwner_empty_desc:
  "CreateNewOwner sample_db ''cryolab'' [] =
     (Inl (ModelException ''All groups must have a valid name and desc''),
      sample_db\<lparr>Owners := Owners sample_db @
         [\<lparr>ownerName = ''cryolab'', ownerDesc = [], ownerID = 2, ownerDTG = 100\<rparr>]\<rparr>)"
  by (simp add: CreateNewOwner_eq sample_free sample_tables sql_safe_def Owner_def
      Group_init_def)

lemma sample_CreateNewOwner_duplicate:
  "CreateNewOwner sample_db ''lab'' ''again'' =
     (Inl (DatabaseException ''This owner already exists in the databse''), sample_db)"
  by (simp add: CreateNewOwner_eq sample_GetOwner sample_objects sql_safe_def)

subsection \<open>What a failed creation leaves in the store\<close>

text \<open>
  C3, as claimed: a model-validation failure of a create operation is detected before
  the store is changed. It is not: with no owner \<^verbatim>\<open>cryolab\<close> in the store,
  \<^verbatim>\<open>CreateNewOwner('cryolab', '')\<close> inserts the row and only then raises the
  \<^verbatim>\<open>ModelException\<close> for the empty description.
\<close>

theorem CreateNewOwner_inserts_before_validation:
  "fst (CreateNewOwner sample_db ''cryolab'' []) =
     Inl (ModelException ''All groups must have a valid name and desc'') \<and>
   Owners (snd (CreateNewOwner sample_db ''cryolab'' [])) =
     Owners sample_db @
       [\<lparr>ownerName = ''cryolab'', ownerDesc = [], ownerID = 2, ownerDTG = 100\<rparr>] \<and>
   snd (CreateNewOwner sample_db ''cryolab'' []) \<noteq> sample_db"
proof -
  have "Owners (snd (CreateNewOwner sample_db ''cryolab'' [])) \<noteq> Owners sample_db"
    by (simp add: sample_CreateNewOwner_empty_desc)
  then have "snd (CreateNewOwner sample_db ''cryolab'' []) \<noteq> sample_db"
    by auto
  then show ?thesis
    by (simp add: sample_CreateNewOwner_empty_desc)
qed

text \<open>
  C3, amended. The strings written into the insert hold no apostrophe and no
  backslash. Then a create operation that fails leaves the store unchanged, or it
  fails with a \<^verbatim>\<open>ModelException\<close> and has appended exactly one row to the table of
  its entity; a \<^verbatim>\<open>DatabaseException\<close> always leaves the store unchanged. And each
  of the seven create operations validates the fields of the new entity only when it
  constructs the object, after the insert: when the checks that come before the
  insert pass (no entity of that name, the parent found, the manufacturer or units
  given and stored) and the constructor rejects the fields, the create operation
  raises the constructor's \<^verbatim>\<open>ModelException\<close> and leaves the new row in the store.
\<close>

theorem create_failure_store:
  "(sql_safe name \<and> sql_safe desc \<and> fst (CreateNewOwner d name desc) = Inl e \<longrightarrow>
      (snd (CreateNewOwner d name desc) = d \<or>
       (is_ModelException e \<and>
        (\<exists>row. snd (CreateNewOwner d name desc) = d\<lparr>Owners := Owners d @ [row]\<rparr>))) \<and>
      (is_DatabaseException e \<longrightarrow> snd (CreateNewOwner d name desc) = d)) \<and>
   (sql_safe name \<and> sql_safe desc \<and> fst (CreateNewProject d name desc) = Inl e \<longrightarrow>
      (snd (CreateNewProject d name desc) = d \<or>
       (is_ModelException e \<and>
        (\<exists>row. snd (CreateNewProject d name desc) = d\<lparr>Projects := Projects d @ [row]\<rparr>))) \<and>
      (is_DatabaseException e \<longrightarrow> snd (CreateNewProject d name desc) = d)) \<and>
   (sql_safe name \<and> sql_safe desc \<and> fst (CreateNewSystem d name desc) = Inl e \<longrightarrow>
      (snd (CreateNewSystem d name desc) = d \<or>
       (is_ModelException e \<and>
        (\<exists>row. snd (CreateNewSystem d name desc) = d\<lparr>Systems := Systems d @ [row]\<rparr>))) \<and>
      (is_DatabaseException e \<longrightarrow> snd (CreateNewSystem d name desc) = d)) \<and>
   (sql_safe name \<and> sql_safe desc \<and> sql_safe URL \<and>
    fst (CreateNewManufacturer d name desc URL) = Inl e \<longrightarrow>
      (snd (CreateNewManufacturer d name desc URL) = d \<or>
       (is_ModelException e \<and>
        (\<exists>row. snd (CreateNewManufacturer d name desc URL) =
           d\<lparr>Manufacturers := Manufacturers d @ [row]\<rparr>))) \<and>
      (is_DatabaseException e \<longrightarrow> snd (CreateNewManufacturer d name desc URL) = d)) \<and>
   (sql_safe name \<and> sql_safe desc \<and> sql_safe URL \<and>
    fst (CreateNewDevice d name desc URL mfg) = Inl e \<longrightarrow>
      (snd (CreateNewDevice d name desc URL mfg) = d \<or>
       (is_ModelException e \<and>
        (\<exists>row. snd (CreateNewDevice d name desc URL mfg) =
           d\<lparr>Devices := Devices d @ [row]\<rparr>))) \<and>
      (is_DatabaseException e \<longrightarrow> snd (CreateNewDevice d name desc URL mfg) = d)) \<and>
   (sql_safe short \<and> sql_safe long \<and> sql_safe desc \<and>
    fst (CreateNewUnits d short long desc) = Inl e \<longrightarrow>
      (snd (CreateNewUnits d short long desc) = d \<or>
       (is_ModelException e \<and>
        (\<exists>row. snd (CreateNewUnits d short long desc) =
           d\<lparr>UnitsTable := UnitsTable d @ [row]\<rparr>))) \<and>
      (is_DatabaseException e \<longrightarrow> snd (CreateNewUnits d short long desc) = d)) \<and>
   (sql_safe name \<and> sql_safe desc \<and> fst (CreateNewSensor d name desc units) = Inl e \<longrightarrow>
      (snd (CreateNewSensor d name desc units) = d \<or>
       (is_ModelException e \<and>
        (\<exists>row. snd (CreateNewSensor d name desc units) =
           d\<lparr>Sensors := Sensors d @ [row]\<rparr>))) \<and>
      (is_DatabaseException e \<longrightarrow> snd (CreateNewSensor d name desc units) = d)) \<and>
   (sql_safe name \<and> sql_safe desc \<and> GetOwner d name None = Inr PyNone \<and>
    Owner name desc ID DTG = Inl e \<longrightarrow>
      CreateNewOwner d name desc =
        (Inl e, d\<lparr>Owners := Owners d @
                   [\<lparr>ownerName = name, ownerDesc = desc,
                     ownerID = 1 + max_id (map ownerID (Owners d)), ownerDTG = now d\<rparr>]\<rparr>)) \<and>
   (split_dot name = [oName, pName] \<and> sql_safe name \<and> sql_safe desc \<and>
    GetProject d name None = Inr PyNone \<and> GetOwner d oName None = Inr owner \<and>
    attr_ID owner = Inr (Some oid) \<and> Project pName desc owner ID DTG = Inl e \<longrightarrow>
      CreateNewProject d name desc =
        (Inl e, d\<lparr>Projects := Projects d @
                   [\<lparr>projName = pName, projDesc = desc,
                     projID = 1 + max_id (map projID (Projects d)), projDTG = now d,
                     projOwnerID = oid\<rparr>]\<rparr>)) \<and>
   (split_dot name = [oName, pName, sName] \<and> sql_safe name \<and> sql_safe desc \<and>
    GetSystem d name None = Inr PyNone \<and>
    GetProject d (Sep [oName, pName]) None = Inr project \<and>
    attr_ID project = Inr (Some pid) \<and> System sName desc project ID DTG = Inl e \<longrightarrow>
      CreateNewSystem d name desc =
        (Inl e, d\<lparr>Systems := Systems d @
                   [\<lparr>sysName = sName, sysDesc = desc,
                     sysID = 1 + max_id (map sysID (Systems d)), sysDTG = now d,
                     sysProjID = pid\<rparr>]\<rparr>)) \<and>
   (sql_safe name \<and> sql_safe desc \<and> sql_safe URL \<and>
    GetManufacturer d name None = Inr PyNone \<and>
    Manufacturer name desc URL ID DTG = Inl e \<longrightarrow>
      CreateNewManufacturer d name desc URL =
        (Inl e, d\<lparr>Manufacturers := Manufacturers d @
                   [\<lparr>mfgName = name, mfgDesc = desc, mfgURL = URL,
                     mfgID = 1 + max_id (map mfgID (Manufacturers d)), mfgDTG = now d\<rparr>]\<rparr>)) \<and>
   (split_dot name = [oName, pName, sName, dName] \<and>
    sql_safe name \<and> sql_safe desc \<and> sql_safe URL \<and>
    truthy mfg \<and> attr_ID mfg = Inr (Some mid) \<and>
    GetDevice d name None = Inr PyNone \<and>
    GetSystem d (Sep [oName, pName, sName]) None = Inr system \<and>
    attr_ID system = Inr (Some sid) \<and>
    Device dName desc system URL mfg ID DTG = Inl e \<longrightarrow>
      CreateNewDevice d name desc URL mfg =
        (Inl e, d\<lparr>Devices := Devices d @
                   [\<lparr>devName = dName, devDesc = desc, devSysID = sid, devURL = URL,
                     devMfgID = mid, devID = 1 + max_id (map devID (Devices d)),
                     devDTG = now d\<rparr>]\<rparr>)) \<and>
   (sql_safe short \<and> sql_safe long \<and> sql_safe desc \<and>
    GetUnits d long None = Inr PyNone \<and> Units short long desc ID = Inl e \<longrightarrow>
      CreateNewUnits d short long desc =
        (Inl e, d\<lparr>UnitsTable := UnitsTable d @
                   [\<lparr>unitShort = short, unitLong = long, unitDesc = desc,
                     unitID = 1 + max_id (map unitID (UnitsTable d))\<rparr>]\<rparr>)) \<and>
   (split_dot name = [oName, pName, sName, dName, SName] \<and>
    sql_safe name \<and> sql_safe desc \<and>
    truthy units \<and> attr_ID units = Inr (Some uid) \<and>
    GetSensor d name None = Inr PyNone \<and>
    GetDevice d (Sep [oName, pName, sName, dName]) None = Inr device \<and>
    attr_ID device = Inr (Some did) \<and>
    Sensor SName desc device units ID DTG = Inl e \<longrightarrow>
      CreateNewSensor d name desc units =
        (Inl e, d\<lparr>Sensors := Sensors d @
                   [\<lparr>senName = SName, senDesc = desc, senDevID = did, senUnitID = uid,
                     senID = 1 + max_id (map senID (Sensors d)), senDTG = now d\<rparr>]\<rparr>))"
proof -
  note nb = not_both_exceptions [of e]
  have f1: "sql_safe name \<and> sql_safe desc \<and> fst (CreateNewOwner d name desc) = Inl e \<longrightarrow>
      (snd (CreateNewOwner d name desc) = d \<or>
       (is_ModelException e \<and>
        (\<exists>row. snd (CreateNewOwner d name desc) = d\<lparr>Owners := Owners d @ [row]\<rparr>))) \<and>
      (is_DatabaseException e \<longrightarrow> snd (CreateNewOwner d name desc) = d)"
    using CreateNewOwner_failure [of d name desc e] nb by blast
  have f2: "sql_safe name \<and> sql_safe desc \<and> fst (CreateNewProject d name desc) = Inl e \<longrightarrow>
      (snd (CreateNewProject d name desc) = d \<or>
       (is_ModelException e \<and>
        (\<exists>row. snd (CreateNewProject d name desc) = d\<lparr>Projects := Projects d @ [row]\<rparr>))) \<and>
      (is_DatabaseException e \<longrightarrow> snd (CreateNewProject d name desc) = d)"
    using CreateNewProject_failure [of d name desc e] nb by blast
  have f3: "sql_safe name \<and> sql_safe desc \<and> fst (CreateNewSystem d name desc) = Inl e \<longrightarrow>
      (snd (CreateNewSystem d name desc) = d \<or>
       (is_ModelException e \<and>
        (\<exists>row. snd (CreateNewSystem d name desc) = d\<lparr>Systems := Systems d @ [row]\<rparr>))) \<and>
      (is_DatabaseException e \<longrightarrow> snd (CreateNewSystem d name desc) = d)"
    using CreateNewSystem_failure [of d name desc e] nb by blast
  have f4: "sql_safe name \<and> sql_safe desc \<and> sql_safe URL \<and>
    fst (CreateNewManufacturer d name desc URL) = Inl e \<longrightarrow>
      (snd (CreateNewManufacturer d name desc URL) = d \<or>
       (is_ModelException e \<and>
        (\<exists>row. snd (CreateNewManufacturer d name desc URL) =
           d\<lparr>Manufacturers := Manufacturers d @ [row]\<rparr>))) \<and>
      (is_DatabaseException e \<longrightarrow> snd (CreateNewManufacturer d name desc URL) = d)"
    using CreateNewManufacturer_failure [of d name desc URL e] nb by blast
  have f5: "sql_safe name \<and> sql_safe desc \<and> sql_safe URL \<and>
    fst (CreateNewDevice d name desc URL mfg) = Inl e \<longrightarrow>
      (snd (CreateNewDevice d name desc URL mfg) = d \<or>
       (is_ModelException e \<and>
        (\<exists>row. snd (CreateNewDevice d name desc URL mfg) =
           d\<lparr>Devices := Devices d @ [row]\<rparr>))) \<and>
      (is_DatabaseException e \<longrightarrow> snd (CreateNewDevice d name desc URL mfg) = d)"
    using CreateNewDevice_failure [of d name desc URL mfg e] nb by blast
  have f6: "sql_safe short \<and> sql_safe long \<and> sql_safe desc \<and>
    fst (CreateNewUnits d short long desc) = Inl e \<longrightarrow>
      (snd (CreateNewUnits d short long desc) = d \<or>
       (is_ModelException e \<and>
        (\<exists>row. snd (CreateNewUnits d short long desc) =
           d\<lparr>UnitsTable := UnitsTable d @ [row]\<rparr>))) \<and>
      (is_DatabaseException e \<longrightarrow> snd (CreateNewUnits d short long desc) = d)"
    using CreateNewUnits_failure [of d short long desc e] nb by blast
  have f7: "sql_safe name \<and> sql_safe desc \<and> fst (CreateNewSensor d name desc units) = Inl e \<longrightarrow>
      (snd (CreateNewSensor d name desc units) = d \<or>
       (is_ModelException e \<and>
        (\<exists>row. snd (CreateNewSensor d name desc units) =
           d\<lparr>Sensors := Sensors d @ [row]\<rparr>))) \<and>
      (is_DatabaseException e \<longrightarrow> snd (CreateNewSensor d name desc units) = d)"
    using CreateNewSensor_failure [of d name desc units e] nb by blast
  have i1: "sql_safe name \<and> sql_safe desc \<and> GetOwner d name None = Inr PyNone \<and>
    Owner name desc ID DTG = Inl e \<longrightarrow>
      CreateNewOwner d name desc =
        (Inl e, d\<lparr>Owners := Owners d @
                   [\<lparr>ownerName = name, ownerDesc = desc,
                     ownerID = 1 + max_id (map ownerID (Owners d)), ownerDTG = now d\<rparr>]\<rparr>)"
    by (intro impI, elim conjE) (rule CreateNewOwner_invalid, assumption+)
  have i2: "split_dot name = [oName, pName] \<and> sql_safe name \<and> sql_safe desc \<and>
    GetProject d name None = Inr PyNone \<and> GetOwner d oName None = Inr owner \<and>
    attr_ID owner = Inr (Some oid) \<and> Project pName desc owner ID DTG = Inl e \<longrightarrow>
      CreateNewProject d name desc =
        (Inl e, d\<lparr>Projects := Projects d @
                   [\<lparr>projName = pName, projDesc = desc,
                     projID = 1 + max_id (map projID (Projects d)), projDTG = now d,
                     projOwnerID = oid\<rparr>]\<rparr>)"
    by (intro impI, elim conjE) (rule CreateNewProject_invalid, assumption+)
  have i3: "split_dot name = [oName, pName, sName] \<and> sql_safe name \<and> sql_safe desc \<and>
    GetSystem d name None = Inr PyNone \<and>
    GetProject d (Sep [oName, pName]) None = Inr project \<and>
    attr_ID project = Inr (Some pid) \<and> System sName desc project ID DTG = Inl e \<longrightarrow>
      CreateNewSystem d name desc =
        (Inl e, d\<lparr>Systems := Systems d @
                   [\<lparr>sysName = sName, sysDesc = desc,
                     sysID = 1 + max_id (map sysID (Systems d)), sysDTG = now d,
                     sysProjID = pid\<rparr>]\<rparr>)"
    by (intro impI, elim conjE) (rule CreateNewSystem_invalid, assumption+)
  have i4: "sql_safe name \<and> sql_safe desc \<and> sql_safe URL \<and>
    GetManufacturer d name None = Inr PyNone \<and>
    Manufacturer name desc URL ID DTG = Inl e \<longrightarrow>
      CreateNewManufacturer d name desc URL =
        (Inl e, d\<lparr>Manufacturers := Manufacturers d @
                   [\<lparr>mfgName = name, mfgDesc = desc, mfgURL = URL,
                     mfgID = 1 + max_id (map mfgID (Manufacturers d)), mfgDTG = now d\<rparr>]\<rparr>)"
    by (intro impI, elim conjE) (rule CreateNewManufacturer_invalid, assumption+)
  have i5: "split_dot name = [oName, pName, sName, dName] \<and>
    sql_safe name \<and> sql_safe desc \<and> sql_safe URL \<and>
    truthy mfg \<and> attr_ID mfg = Inr (Some mid) \<and>
    GetDevice d name None = Inr PyNone \<and>
    GetSystem d (Sep [oName, pName, sName]) None = Inr system \<and>
    attr_ID system = Inr (Some sid) \<and>
    Device dName desc system URL mfg ID DTG = Inl e \<longrightarrow>
      CreateNewDevice d name desc URL mfg =
        (Inl e, d\<lparr>Devices := Devices d @
                   [\<lparr>devName = dName, devDesc = desc, devSysID = sid, devURL = URL,
                     devMfgID = mid, devID = 1 + max_id (map devID (Devices d)),
                     devDTG = now d\<rparr>]\<rparr>)"
    by (intro impI, elim conjE) (rule CreateNewDevice_invalid, assumption+)
  have i6: "sql_safe short \<and> sql_safe long \<and> sql_safe desc \<and>
    GetUnits d long None = Inr PyNone \<and> Units short long desc ID = Inl e \<longrightarrow>
      CreateNewUnits d short long desc =
        (Inl e, d\<lparr>UnitsTable := UnitsTable d @
                   [\<lparr>unitShort = short, unitLong = long, unitDesc = desc,
                     unitID = 1 + max_id (map unitID (UnitsTable d))\<rparr>]\<rparr>)"
    by (intro impI, elim conjE) (rule CreateNewUnits_invalid, assumption+)
  have i7: "split_dot name = [oName, pName, sName, dName, SName] \<and>
    sql_safe name \<and> sql_safe desc \<and>
    truthy units \<and> attr_ID units = Inr (Some uid) \<and>
    GetSensor d name None = Inr PyNone \<and>
    GetDevice d (Sep [oName, pName, sName, dName]) None = Inr device \<and>
    attr_ID device = Inr (Some did) \<and>
    Sensor SName desc device units ID DTG = Inl e \<longrightarrow>
      CreateNewSensor d name desc units =
        (Inl e, d\<lparr>Sensors := Sensors d @
                   [\<lparr>senName = SName, senDesc = desc, senDevID = did, senUnitID = uid,
                     senID = 1 + max_id (map senID (Sensors d)), senDTG = now d\<rparr>]\<rparr>)"
    by (intro impI, elim conjE) (rule CreateNewSensor_invalid, assumption+)
  show ?thesis
    by (intro conjI f1 f2 f3 f4 f5 f6 f7 i1 i2 i3 i4 i5 i6 i7)
qed

theorem create_failure_store_witness:
  "fst (CreateNewOwner sample_db ''lab'' ''again'') =
     Inl (DatabaseException ''This owner already exists in the databse'') \<and>
   snd (CreateNewOwner sample_db ''lab'' ''again'') = sample_db \<and>
   CreateNewOwner sample_db ''cryolab'' [] =
     (Inl (ModelException ''All groups must have a valid name and desc''),
      sample_db\<lparr>Owners := Owners sample_db @
         [\<lparr>ownerName = ''cryolab'', ownerDesc = [],
           ownerID = 1 + max_id (map ownerID (Owners sample_db)),
           ownerDTG = now sample_db\<rparr>]\<rparr>) \<and>
   CreateNewProject sample_db ''lab.zz'' [] =
     (Inl (ModelException ''All groups must have a valid name and desc''),
      sample_db\<lparr>Projects := Projects sample_db @
         [\<lparr>projName = ''zz'', projDesc = [],
           projID = 1 + max_id (map projID (Projects sample_db)),
           projDTG = now sample_db, projOwnerID = 1\<rparr>]\<rparr>) \<and>
   CreateNewSystem sample_db ''lab.nmr.zz'' [] =
     (Inl (ModelException ''All groups must have a valid name and desc''),
      sample_db\<lparr>Systems := Systems sample_db @
         [\<lparr>sysName = ''zz'', sysDesc = [],
           sysID = 1 + max_id (map sysID (Systems sample_db)),
           sysDTG = now sample_db, sysProjID = 1\<rparr>]\<rparr>) \<and>
   CreateNewManufacturer sample_db ''maker'' ''a maker'' [] =
     (Inl (ModelException ''Manufacturer require a valid URL''),
      sample_db\<lparr>Manufacturers := Manufacturers sample_db @
         [\<lparr>mfgName = ''maker'', mfgDesc = ''a maker'', mfgURL = [],
           mfgID = 1 + max_id (map mfgID (Manufacturers sample_db)),
           mfgDTG = now sample_db\<rparr>]\<rparr>) \<and>
   CreateNewDevice sample_db ''lab.nmr.cryo.zz'' [] ''http://zz'' sample_mfg =
     (Inl (ModelException ''All groups must have a valid name and desc''),
      sample_db\<lparr>Devices := Devices sample_db @
         [\<lparr>devName = ''zz'', devDesc = [], devSysID = 1, devURL = ''http://zz'',
           devMfgID = 1, devID = 1 + max_id (map devID (Devices sample_db)),
           devDTG = now sample_db\<rparr>]\<rparr>) \<and>
   CreateNewUnits sample_db [] ''volt'' ''potential'' =
     (Inl (ModelException ''Description and short/long forms of units must be provided''),
      sample_db\<lparr>UnitsTable := UnitsTable sample_db @
         [\<lparr>unitShort = [], unitLong = ''volt'', unitDesc = ''potential'',
           unitID = 1 + max_id (map unitID (UnitsTable sample_db))\<rparr>]\<rparr>) \<and>
   CreateNewSensor sample_db ''lab.nmr.cryo.probe.zz'' [] sample_units =
     (Inl (ModelException ''All groups must have a valid name and desc''),
      sample_db\<lparr>Sensors := Sensors sample_db @
         [\<lparr>senName = ''zz'', senDesc = [], senDevID = 1, senUnitID = 1,
           senID = 1 + max_id (map senID (Sensors sample_db)),
           senDTG = now sample_db\<rparr>]\<rparr>)"
proof -
  have f: "fst (CreateNewOwner sample_db ''lab'' ''again'') =
     Inl (DatabaseException ''This owner already exists in the databse'')"
    by (simp add: sample_CreateNewOwner_duplicate)
  have u: "snd (CreateNewOwner sample_db ''lab'' ''again'') = sample_db"
    using f create_failure_store [where d = sample_db and name = "''lab''"
        and desc = "''again''"
        and e = "DatabaseException ''This owner already exists in the databse''",
        THEN conjunct1]
    by (simp add: sql_safe_def)
  have o: "CreateNewOwner sample_db ''cryolab'' [] =
     (Inl (ModelException ''All groups must have a valid name and desc''),
      sample_db\<lparr>Owners := Owners sample_db @
         [\<lparr>ownerName = ''cryolab'', ownerDesc = [],
           ownerID = 1 + max_id (map ownerID (Owners sample_db)),
           ownerDTG = now sample_db\<rparr>]\<rparr>)"
    by (rule create_failure_store
        [where d = sample_db and name = "''cryolab''" and desc = "[]" and ID = None
        and DTG = None
        and e = "ModelException ''All groups must have a valid name and desc''",
        THEN conjunct2, THEN conjunct2, THEN conjunct2, THEN conjunct2, THEN conjunct2,
        THEN conjunct2, THEN conjunct2, THEN conjunct1, THEN mp])
      (simp add: sample_free sql_safe_def Owner_def Group_init_def)
  have p: "CreateNewProject sample_db ''lab.zz'' [] =
     (Inl (ModelException ''All groups must have a valid name and desc''),
      sample_db\<lparr>Projects := Projects sample_db @
         [\<lparr>projName = ''zz'', projDesc = [],
           projID = 1 + max_id (map projID (Projects sample_db)),
           projDTG = now sample_db, projOwnerID = 1\<rparr>]\<rparr>)"
    by (rule create_failure_store
        [where d = sample_db and name = "''lab.zz''" and desc = "[]" and ID = None
        and DTG = None
        and oName = "''lab''" and pName = "''zz''" and owner = sample_owner and oid = 1
        and e = "ModelException ''All groups must have a valid name and desc''",
        THEN conjunct2, THEN conjunct2, THEN conjunct2, THEN conjunct2, THEN conjunct2,
        THEN conjunct2, THEN conjunct2, THEN conjunct2, THEN conjunct1, THEN mp])
      (simp add: sample_missing sample_GetOwner sample_objects sql_safe_def Project_def Group_init_def
        isinstance_def sample_owner_def)
  have s: "CreateNewSystem sample_db ''lab.nmr.zz'' [] =
     (Inl (ModelException ''All groups must have a valid name and desc''),
      sample_db\<lparr>Systems := Systems sample_db @
         [\<lparr>sysName = ''zz'', sysDesc = [],
           sysID = 1 + max_id (map sysID (Systems sample_db)),
           sysDTG = now sample_db, sysProjID = 1\<rparr>]\<rparr>)"
    by (rule create_failure_store
        [where d = sample_db and name = "''lab.nmr.zz''" and desc = "[]" and ID = None
        and DTG = None and oName = "''lab''" and pName = "''nmr''" and sName = "''zz''"
        and project = sample_project and pid = 1
        and e = "ModelException ''All groups must have a valid name and desc''",
        THEN conjunct2, THEN conjunct2, THEN conjunct2, THEN conjunct2, THEN conjunct2,
        THEN conjunct2, THEN conjunct2, THEN conjunct2, THEN conjunct2, THEN conjunct1,
        THEN mp])
      (simp add: sample_missing sample_GetProject sample_objects sql_safe_def System_def Group_init_def
        isinstance_def sample_project_def)
  have m: "CreateNewManufacturer sample_db ''maker'' ''a maker'' [] =
     (Inl (ModelException ''Manufacturer require a valid URL''),
      sample_db\<lparr>Manufacturers := Manufacturers sample_db @
         [\<lparr>mfgName = ''maker'', mfgDesc = ''a maker'', mfgURL = [],
           mfgID = 1 + max_id (map mfgID (Manufacturers sample_db)),
           mfgDTG = now sample_db\<rparr>]\<rparr>)"
    by (rule create_failure_store
        [where d = sample_db and name = "''maker''" and desc = "''a maker''" and URL = "[]"
        and ID = None and DTG = None
        and e = "ModelException ''Manufacturer require a valid URL''",
        THEN conjunct2, THEN conjunct2, THEN conjunct2, THEN conjunct2, THEN conjunct2,
        THEN conjunct2, THEN conjunct2, THEN conjunct2, THEN conjunct2, THEN conjunct2,
        THEN conjunct1, THEN mp])
      (simp add: sample_free sql_safe_def Manufacturer_def)
  have v: "CreateNewDevice sample_db ''lab.nmr.cryo.zz'' [] ''http://zz'' sample_mfg =
     (Inl (ModelException ''All groups must have a valid name and desc''),
      sample_db\<lparr>Devices := Devices sample_db @
         [\<lparr>devName = ''zz'', devDesc = [], devSysID = 1, devURL = ''http://zz'',
           devMfgID = 1, devID = 1 + max_id (map devID (Devices sample_db)),
           devDTG = now sample_db\<rparr>]\<rparr>)"
    by (rule create_failure_store
        [where d = sample_db and name = "''lab.nmr.cryo.zz''" and desc = "[]"
        and URL = "''http://zz''" and mfg = sample_mfg and mid = 1 and ID = None
        and DTG = None and oName = "''lab''" and pName = "''nmr''" and sName = "''cryo''"
        and dName = "''zz''" and system = sample_system and sid = 1
        and e = "ModelException ''All groups must have a valid name and desc''",
        THEN conjunct2, THEN conjunct2, THEN conjunct2, THEN conjunct2, THEN conjunct2,
        THEN conjunct2, THEN conjunct2, THEN conjunct2, THEN conjunct2, THEN conjunct2,
        THEN conjunct2, THEN conjunct1, THEN mp])
      (simp add: sample_missing sample_GetSystem sample_objects sql_safe_def Device_def Group_init_def
        isinstance_def sample_system_def)
  have q: "CreateNewUnits sample_db [] ''volt'' ''potential'' =
     (Inl (ModelException ''Description and short/long forms of units must be provided''),
      sample_db\<lparr>UnitsTable := UnitsTable sample_db @
         [\<lparr>unitShort = [], unitLong = ''volt'', unitDesc = ''potential'',
           unitID = 1 + max_id (map unitID (UnitsTable sample_db))\<rparr>]\<rparr>)"
    by (rule create_failure_store
        [where d = sample_db and short = "[]" and long = "''volt''" and desc = "''potential''"
        and ID = None
        and e = "ModelException ''Description and short/long forms of units must be provided''",
        THEN conjunct2, THEN conjunct2, THEN conjunct2, THEN conjunct2, THEN conjunct2,
        THEN conjunct2, THEN conjunct2, THEN conjunct2, THEN conjunct2, THEN conjunct2,
        THEN conjunct2, THEN conjunct2, THEN conjunct1, THEN mp])
      (simp add: sample_free sql_safe_def Units_def)
  have n: "CreateNewSensor sample_db ''lab.nmr.cryo.probe.zz'' [] sample_units =
     (Inl (ModelException ''All groups must have a valid name and desc''),
      sample_db\<lparr>Sensors := Sensors sample_db @
         [\<lparr>senName = ''zz'', senDesc = [], senDevID = 1, senUnitID = 1,
           senID = 1 + max_id (map senID (Sensors sample_db)),
           senDTG = now sample_db\<rparr>]\<rparr>)"
    by (rule create_failure_store
        [where d = sample_db and name = "''lab.nmr.cryo.probe.zz''" and desc = "[]"
        and units = sample_units and uid = 1 and ID = None and DTG = None
        and oName = "''lab''" and pName = "''nmr''" and sName = "''cryo''"
        and dName = "''probe''" and SName = "''zz''" and device = sample_device and did = 1
        and e = "ModelException ''All groups must have a valid name and desc''",
        THEN conjunct2, THEN conjunct2, THEN conjunct2, THEN conjunct2, THEN conjunct2,
        THEN conjunct2, THEN conjunct2, THEN conjunct2, THEN conjunct2, THEN conjunct2,
        THEN conjunct2, THEN conjunct2, THEN conjunct2, THEN mp])
      (simp add: sample_free sample_GetDevice sample_objects sql_safe_def Sensor_def Group_init_def
        isinstance_def sample_device_def)
  from f u o p s m v q n show ?thesis by blast
qed

section \<open>Creation followed by lookup\<close>

subsection \<open>A lookup by name and the lookup by the identifier it finds\<close>

lemma rows_where2_hd:
  assumes "rows_where tbl [EQ a \<circ> f, EQ b \<circ> g] \<noteq> []"
  shows "hd (rows_where tbl [EQ a \<circ> f, EQ b \<circ> g]) \<in> set tbl"
    and "f (hd (rows_where tbl [EQ a \<circ> f, EQ b \<circ> g])) = a"
    and "g (hd (rows_where tbl [EQ a \<circ> f, EQ b \<circ> g])) = b"
  using rows_where_hd [OF assms] by (simp_all add: EQ_def)

lemma rows_where1_hd:
  assumes "rows_where tbl [EQ a \<circ> f] \<noteq> []"
  shows "hd (rows_where tbl [EQ a \<circ> f]) \<in> set tbl"
    and "f (hd (rows_where tbl [EQ a \<circ> f])) = a"
  using rows_where_hd [OF assms] by (simp_all add: EQ_def)

lemma Owner_of_rows_hd: "rows \<noteq> [] \<Longrightarrow> Owner_of_rows rows = Owner_of_rows [hd rows]"
  by (simp add: Owner_of_rows_def)

lemma Project_of_rows_hd: "rows \<noteq> [] \<Longrightarrow> Project_of_rows d rows = Project_of_rows d [hd rows]"
  by (simp add: Project_of_rows_def)

lemma System_of_rows_hd: "rows \<noteq> [] \<Longrightarrow> System_of_rows d rows = System_of_rows d [hd rows]"
  by (simp add: System_of_rows_def)

lemma Device_of_rows_hd: "rows \<noteq> [] \<Longrightarrow> Device_of_rows d rows = Device_of_rows d [hd rows]"
  by (simp add: Device_of_rows_def)

lemma Sensor_of_rows_hd: "rows \<noteq> [] \<Longrightarrow> Sensor_of_rows d rows = Sensor_of_rows d [hd rows]"
  by (simp add: Sensor_of_rows_def)

lemma of_rows_truthy:
  "Owner_of_rows orows = Inr x \<Longrightarrow> truthy x \<Longrightarrow> orows \<noteq> []"
  "Project_of_rows d prows = Inr x \<Longrightarrow> truthy x \<Longrightarrow> prows \<noteq> []"
  "System_of_rows d srows = Inr x \<Longrightarrow> truthy x \<Longrightarrow> srows \<noteq> []"
  "Device_of_rows d drows = Inr x \<Longrightarrow> truthy x \<Longrightarrow> drows \<noteq> []"
  "Sensor_of_rows d nrows = Inr x \<Longrightarrow> truthy x \<Longrightarrow> nrows \<noteq> []"
  by auto

lemma Owner_Inr:
  "Owner name desc ID DTG = Inr x \<Longrightarrow> x = OwnerObj name desc ID DTG"
  by (auto simp: Owner_def split: sum.splits)

lemma Project_Inr:
  "Project name desc parent ID DTG = Inr x \<Longrightarrow>
     x = ProjectObj name desc parent ID DTG \<and> truthy parent"
  by (auto simp: Project_def split: sum.splits if_splits)

lemma System_Inr:
  "System name desc parent ID DTG = Inr x \<Longrightarrow>
     x = SystemObj name desc parent ID DTG \<and> truthy parent"
  by (auto simp: System_def split: sum.splits if_splits)

lemma Device_Inr:
  "Device name desc parent URL mfg ID DTG = Inr x \<Longrightarrow>
     x = DeviceObj name desc parent URL mfg ID DTG \<and> truthy parent"
  by (auto simp: Device_def split: sum.splits if_splits)

lemma Sensor_Inr:
  "Sensor name desc parent units ID DTG = Inr x \<Longrightarrow>
     x = SensorObj name desc parent units ID DTG \<and> truthy parent"
  by (auto simp: Sensor_def split: sum.splits if_splits)

lemma GetOwner_resolved:
  assumes pk: "primary_keys d" and safe: "sql_safe name"
    and g: "GetOwner d name None = Inr x" and t: "truthy x"
  shows "\<exists>i. attr_ID x = Inr (Some i) \<and> GetOwner d [] (Some i) = Inr x \<and>
             Nomenclature x = Inr name \<and> class_of x = Some Owner_cls"
proof -
  define rows where "rows = rows_where (Owners d) [EQ name \<circ> ownerName]"
  have o: "Owner_of_rows rows = Inr x"
    using g by (simp add: GetOwner_by_name [OF safe] rows_def)
  then have ne: "rows \<noteq> []" using t of_rows_truthy(1) by blast
  define r where "r = hd rows"
  have r: "r \<in> set (Owners d)" "ownerName r = name"
    using rows_where1_hd [of "Owners d" name ownerName] ne by (simp_all add: rows_def r_def)
  have o1: "Owner_of_rows [r] = Inr x"
    using o Owner_of_rows_hd [OF ne] by (simp add: r_def)
  then have x: "x = OwnerObj name (ownerDesc r) (Some (ownerID r)) (Some (ownerDTG r))"
    using r(2) by (auto simp: Owner_of_rows_def dest: Owner_Inr)
  have pos: "ownerID r \<noteq> 0" and dist: "distinct (map ownerID (Owners d))"
    using pk r(1) by (auto simp: primary_keys_def)
  have "GetOwner d [] (Some (ownerID r)) = Owner_of_rows [r]"
    using pos rows_where_key [OF dist r(1)] by (simp add: GetOwner_by_ID)
  with o1 x show ?thesis by simp
qed

lemma GetProject_resolved:
  assumes pk: "primary_keys d" and safe: "sql_safe name"
    and s: "split_dot name = [oName, pName]"
    and g: "GetProject d name None = Inr x" and t: "truthy x"
  shows "\<exists>i. attr_ID x = Inr (Some i) \<and> GetProject d [] (Some i) = Inr x \<and>
             Nomenclature x = Inr name \<and> class_of x = Some Project_cls"
proof -
  have leaf: "sql_safe pName"
    by (rule sql_safe_part [OF s _ safe]) simp
  have safep: "sql_safe oName"
    by (rule sql_safe_part [OF s _ safe]) simp
  from g obtain owner oid where ow: "GetOwner d oName None = Inr owner" "truthy owner"
    "sql_ID owner = Inr oid"
    and p: "Project_of_rows d (rows_where (Projects d) [EQ pName \<circ> projName, EQ oid \<circ> projOwnerID])
            = Inr x"
    by (auto simp: GetProject_by_name [OF s leaf] split: sum.splits if_splits)
  from GetOwner_resolved [OF pk safep ow(1,2)] ow(3)
  have par: "GetOwner d [] (Some oid) = Inr owner" "Nomenclature owner = Inr oName"
    by (auto simp: sql_ID_def)
  define rows where "rows = rows_where (Projects d) [EQ pName \<circ> projName, EQ oid \<circ> projOwnerID]"
  have ne: "rows \<noteq> []" using p t of_rows_truthy(2) unfolding rows_def by blast
  define r where "r = hd rows"
  have r: "r \<in> set (Projects d)" "projName r = pName" "projOwnerID r = oid"
    using rows_where2_hd [of "Projects d" pName projName oid projOwnerID] ne
    by (simp_all add: rows_def r_def)
  have p1: "Project_of_rows d [r] = Inr x"
    using p Project_of_rows_hd [OF ne] by (simp add: r_def rows_def)
  then have x: "x = ProjectObj pName (projDesc r) owner (Some (projID r)) (Some (projDTG r))"
    using r(2,3) par(1) by (auto simp: Project_of_rows_def dest: Project_Inr)
  have pos: "projID r \<noteq> 0" and dist: "distinct (map projID (Projects d))"
    using pk r(1) by (auto simp: primary_keys_def)
  have byid: "GetProject d [] (Some (projID r)) = Project_of_rows d [r]"
    using pos rows_where_key [OF dist r(1)] by (simp add: GetProject_by_ID)
  have "Sep [oName, pName] = name"
    using Sep_split_dot [of name] s by simp
  then have "Nomenclature x = Inr name"
    using x ow(2) par(2) by simp
  with byid p1 x show ?thesis by simp
qed

lemma GetSystem_resolved:
  assumes pk: "primary_keys d" and safe: "sql_safe name"
    and s: "split_dot name = [oName, pName, sName]"
    and g: "GetSystem d name None = Inr x" and t: "truthy x"
  shows "\<exists>i. attr_ID x = Inr (Some i) \<and> GetSystem d [] (Some i) = Inr x \<and>
             Nomenclature x = Inr name \<and> class_of x = Some System_cls"
proof -
  have leaf: "sql_safe sName"
    by (rule sql_safe_part [OF s _ safe]) simp
  have safep: "sql_safe (Sep [oName, pName])"
    by (rule sql_safe_prefix [OF s _ safe]) auto
  have sp: "split_dot (Sep [oName, pName]) = [oName, pName]"
    by (rule split_dot_prefix [OF s]) auto
  from g obtain project pid where pr: "GetProject d (Sep [oName, pName]) None = Inr project"
    "truthy project" "sql_ID project = Inr pid"
    and p: "System_of_rows d (rows_where (Systems d) [EQ sName \<circ> sysName, EQ pid \<circ> sysProjID])
            = Inr x"
    by (auto simp: GetSystem_by_name [OF s leaf] split: sum.splits if_splits)
  from GetProject_resolved [OF pk safep sp pr(1,2)] pr(3)
  have par: "GetProject d [] (Some pid) = Inr project"
    "Nomenclature project = Inr (Sep [oName, pName])"
    by (auto simp: sql_ID_def)
  define rows where "rows = rows_where (Systems d) [EQ sName \<circ> sysName, EQ pid \<circ> sysProjID]"
  have ne: "rows \<noteq> []" using p t of_rows_truthy(3) unfolding rows_def by blast
  define r where "r = hd rows"
  have r: "r \<in> set (Systems d)" "sysName r = sName" "sysProjID r = pid"
    using rows_where2_hd [of "Systems d" sName sysName pid sysProjID] ne
    by (simp_all add: rows_def r_def)
  have p1: "System_of_rows d [r] = Inr x"
    using p System_of_rows_hd [OF ne] by (simp add: r_def rows_def)
  then have x: "x = SystemObj sName (sysDesc r) project (Some (sysID r)) (Some (sysDTG r))"
    using r(2,3) par(1) by (auto simp: System_of_rows_def dest: System_Inr)
  have pos: "sysID r \<noteq> 0" and dist: "distinct (map sysID (Systems d))"
    using pk r(1) by (auto simp: primary_keys_def)
  have byid: "GetSystem d [] (Some (sysID r)) = System_of_rows d [r]"
    using pos rows_where_key [OF dist r(1)] by (simp add: GetSystem_by_ID)
  have "Sep [oName, pName, sName] = name"
    using Sep_split_dot [of name] s by simp
  then have "Nomenclature x = Inr name"
    using x pr(2) par(2) by auto
  with byid p1 x show ?thesis by simp
qed

lemma GetDevice_resolved:
  assumes pk: "primary_keys d" and safe: "sql_safe name"
    and s: "split_dot name = [oName, pName, sName, dName]"
    and g: "GetDevice d name None = Inr x" and t: "truthy x"
  shows "\<exists>i. attr_ID x = Inr (Some i) \<and> GetDevice d [] (Some i) = Inr x \<and>
             Nomenclature x = Inr name \<and> class_of x = Some Device_cls"
proof -
  have leaf: "sql_safe dName"
    by (rule sql_safe_part [OF s _ safe]) simp
  have safep: "sql_safe (Sep [oName, pName, sName])"
    by (rule sql_safe_prefix [OF s _ safe]) auto
  have sp: "split_dot (Sep [oName, pName, sName]) = [oName, pName, sName]"
    by (rule split_dot_prefix [OF s]) auto
  from g obtain system sid where pr: "GetSystem d (Sep [oName, pName, sName]) None = Inr system"
    "truthy system" "sql_ID system = Inr sid"
    and p: "Device_of_rows d (rows_where (Devices d) [EQ dName \<circ> devName, EQ sid \<circ> devSysID])
            = Inr x"
    by (auto simp: GetDevice_by_name [OF s leaf] split: sum.splits if_splits)
  from GetSystem_resolved [OF pk safep sp pr(1,2)] pr(3)
  have par: "GetSystem d [] (Some sid) = Inr system"
    "Nomenclature system = Inr (Sep [oName, pName, sName])"
    by (auto simp: sql_ID_def)
  define rows where "rows = rows_where (Devices d) [EQ dName \<circ> devName, EQ sid \<circ> devSysID]"
  have ne: "rows \<noteq> []" using p t of_rows_truthy(4) unfolding rows_def by blast
  define r where "r = hd rows"
  have r: "r \<in> set (Devices d)" "devName r = dName" "devSysID r = sid"
    using rows_where2_hd [of "Devices d" dName devName sid devSysID] ne
    by (simp_all add: rows_def r_def)
  have p1: "Device_of_rows d [r] = Inr x"
    using p Device_of_rows_hd [OF ne] by (simp add: r_def rows_def)
  then obtain mfg where
    x: "x = DeviceObj dName (devDesc r) system (devURL r) mfg (Some (devID r)) (Some (devDTG r))"
    using r(2,3) par(1)
    by (auto simp: Device_of_rows_def split: sum.splits dest: Device_Inr)
  have pos: "devID r \<noteq> 0" and dist: "distinct (map devID (Devices d))"
    using pk r(1) by (auto simp: primary_keys_def)
  have byid: "GetDevice d [] (Some (devID r)) = Device_of_rows d [r]"
    using pos rows_where_key [OF dist r(1)] by (simp add: GetDevice_by_ID)
  have "Sep [oName, pName, sName, dName] = name"
    using Sep_split_dot [of name] s by simp
  then have "Nomenclature x = Inr name"
    using x pr(2) par(2) by auto
  with byid p1 x show ?thesis by simp
qed

lemma GetSensor_resolved:
  assumes pk: "primary_keys d" and safe: "sql_safe name"
    and s: "split_dot name = [oName, pName, sName, dName, SName]"
    and g: "GetSensor d name None = Inr x" and t: "truthy x"
  shows "\<exists>i. attr_ID x = Inr (Some i) \<and> GetSensor d [] (Some i) = Inr x \<and>
             Nomenclature x = Inr name \<and> class_of x = Some Sensor_cls"
proof -
  have leaf: "sql_safe SName"
    by (rule sql_safe_part [OF s _ safe]) simp
  have safep: "sql_safe (Sep [oName, pName, sName, dName])"
    by (rule sql_safe_prefix [OF s _ safe]) auto
  have sp: "split_dot (Sep [oName, pName, sName, dName]) = [oName, pName, sName, dName]"
    by (rule split_dot_prefix [OF s]) auto
  from g obtain device did where
    pr: "GetDevice d (Sep [oName, pName, sName, dName]) None = Inr device"
    "truthy device" "sql_ID device = Inr did"
    and p: "Sensor_of_rows d (rows_where (Sensors d) [EQ SName \<circ> senName, EQ did \<circ> senDevID])
            = Inr x"
    by (auto simp: GetSensor_by_name [OF s leaf] split: sum.splits if_splits)
  from GetDevice_resolved [OF pk safep sp pr(1,2)] pr(3)
  have par: "GetDevice d [] (Some did) = Inr device"
    "Nomenclature device = Inr (Sep [oName, pName, sName, dName])"
    by (auto simp: sql_ID_def)
  define rows where "rows = rows_where (Sensors d) [EQ SName \<circ> senName, EQ did \<circ> senDevID]"
  have ne: "rows \<noteq> []" using p t of_rows_truthy(5) unfolding rows_def by blast
  define r where "r = hd rows"
  have r: "r \<in> set (Sensors d)" "senName r = SName" "senDevID r = did"
    using rows_where2_hd [of "Sensors d" SName senName did senDevID] ne
    by (simp_all add: rows_def r_def)
  have p1: "Sensor_of_rows d [r] = Inr x"
    using p Sensor_of_rows_hd [OF ne] by (simp add: r_def rows_def)
  then obtain units where
    x: "x = SensorObj SName (senDesc r) device units (Some (senID r)) (Some (senDTG r))"
    using r(2,3) par(1)
    by (auto simp: Sensor_of_rows_def split: sum.splits dest: Sensor_Inr)
  have pos: "senID r \<noteq> 0" and dist: "distinct (map senID (Sensors d))"
    using pk r(1) by (auto simp: primary_keys_def)
  have byid: "GetSensor d [] (Some (senID r)) = Sensor_of_rows d [r]"
    using pos rows_where_key [OF dist r(1)] by (simp add: GetSensor_by_ID)
  have "Sep [oName, pName, sName, dName, SName] = name"
    using Sep_split_dot [of name] s by simp
  then have "Nomenclature x = Inr name"
    using x pr(2) par(2) by auto
  with byid p1 x show ?thesis by simp
qed

subsection \<open>Lookups read their own tables only\<close>











subsection \<open>A lookup that finds nothing\<close>



subsection \<open>Creation followed by lookup\<close>






subsection \<open>Primary keys are an invariant\<close>

text \<open>
  The store with empty tables has primary keys, and every create operation whose
  strings hold no apostrophe and no backslash keeps them, whether it succeeds or fails:
  an inserted row gets an identifier above all those in its table.
\<close>

lemma fresh_key:
  assumes "distinct (map k tbl)" and "\<forall>r \<in> set tbl. 0 < k r"
    and "k r = 1 + max_id (map k tbl)"
  shows "distinct (map k (tbl @ [r])) \<and> (\<forall>x \<in> set (tbl @ [r]). 0 < k x)"
proof -
  have "k r \<notin> set (map k tbl)"
  proof
    assume "k r \<in> set (map k tbl)"
    from max_id_ge [OF this] assms(3) show False by simp
  qed
  moreover have "0 < k r"
    using assms(3) max_id_nonneg [of "map k tbl"] by simp
  ultimately show ?thesis using assms(1,2) by auto
qed

lemma primary_keys_CreateNewOwner:
  assumes "primary_keys d" and "sql_safe name" and "sql_safe desc"
  shows "primary_keys (snd (CreateNewOwner d name desc))"
proof -
  let ?r = "\<lparr>ownerName = name, ownerDesc = desc,
             ownerID = 1 + max_id (map ownerID (Owners d)), ownerDTG = now d\<rparr>"
  have "primary_keys (d\<lparr>Owners := Owners d @ [?r]\<rparr>)"
    using assms(1) fresh_key [of ownerID "Owners d" ?r]
    by (simp add: primary_keys_def)
  then show ?thesis
    using assms(1) by (simp add: CreateNewOwner_eq [OF assms(2,3)] split: sum.split)
qed

lemma primary_keys_CreateNewManufacturer:
  assumes "primary_keys d" and "sql_safe name" and "sql_safe desc" and "sql_safe URL"
  shows "primary_keys (snd (CreateNewManufacturer d name desc URL))"
proof -
  have "primary_keys (d\<lparr>Manufacturers := Manufacturers d @ [r]\<rparr>)"
    if "mfgID r = 1 + max_id (map mfgID (Manufacturers d))" for r
    using assms(1) fresh_key [of mfgID "Manufacturers d" r] that
    by (simp add: primary_keys_def)
  then show ?thesis
    using assms(1) by (simp add: CreateNewManufacturer_eq [OF assms(2,3,4)] split: sum.split)
qed

lemma primary_keys_CreateNewUnits:
  assumes "primary_keys d" and "sql_safe short" and "sql_safe long" and "sql_safe desc"
  shows "primary_keys (snd (CreateNewUnits d short long desc))"
proof -
  have "primary_keys (d\<lparr>UnitsTable := UnitsTable d @ [r]\<rparr>)"
    if "unitID r = 1 + max_id (map unitID (UnitsTable d))" for r
    using assms(1) fresh_key [of unitID "UnitsTable d" r] that
    by (simp add: primary_keys_def)
  then show ?thesis
    using assms(1) by (simp add: CreateNewUnits_eq [OF assms(2,3,4)] split: sum.split)
qed

lemma primary_keys_CreateNewProject:
  assumes "primary_keys d" and "sql_safe name" and "sql_safe desc"
  shows "primary_keys (snd (CreateNewProject d name desc))"
proof (cases "\<exists>a b. split_dot name = [a, b]")
  case False
  then show ?thesis
    using assms(1) by (simp add: CreateNewProject_def unpack2)
next
  case True
  then obtain a b where s: "split_dot name = [a, b]" by blast
  have leaf: "sql_safe b"
    by (rule sql_safe_part [OF s _ assms(2)]) simp
  have "primary_keys (d\<lparr>Projects := Projects d @ [r]\<rparr>)"
    if "projID r = 1 + max_id (map projID (Projects d))" for r
    using assms(1) fresh_key [of projID "Projects d" r] that
    by (simp add: primary_keys_def)
  then show ?thesis
    using assms(1) by (simp add: CreateNewProject_eq [OF s leaf assms(3)] split: sum.split)
qed

lemma primary_keys_CreateNewSystem:
  assumes "primary_keys d" and "sql_safe name" and "sql_safe desc"
  shows "primary_keys (snd (CreateNewSystem d name desc))"
proof (cases "\<exists>a b c. split_dot name = [a, b, c]")
  case False
  then show ?thesis
    using assms(1) by (simp add: CreateNewSystem_def unpack3)
next
  case True
  then obtain a b c where s: "split_dot name = [a, b, c]" by blast
  have leaf: "sql_safe c"
    by (rule sql_safe_part [OF s _ assms(2)]) simp
  have "primary_keys (d\<lparr>Systems := Systems d @ [r]\<rparr>)"
    if "sysID r = 1 + max_id (map sysID (Systems d))" for r
    using assms(1) fresh_key [of sysID "Systems d" r] that
    by (simp add: primary_keys_def)
  then show ?thesis
    using assms(1) by (simp add: CreateNewSystem_eq [OF s leaf assms(3)] split: sum.split)
qed

lemma primary_keys_CreateNewDevice:
  assumes "primary_keys d" and "sql_safe name" and "sql_safe desc" and "sql_safe URL"
  shows "primary_keys (snd (CreateNewDevice d name desc URL mfg))"
proof (cases "\<exists>a b c k. split_dot name = [a, b, c, k]")
  case False
  then show ?thesis
    using assms(1) by (simp add: CreateNewDevice_def unpack4)
next
  case True
  then obtain a b c k where s: "split_dot name = [a, b, c, k]" by blast
  have leaf: "sql_safe k"
    by (rule sql_safe_part [OF s _ assms(2)]) simp
  have "primary_keys (d\<lparr>Devices := Devices d @ [r]\<rparr>)"
    if "devID r = 1 + max_id (map devID (Devices d))" for r
    using assms(1) fresh_key [of devID "Devices d" r] that
    by (simp add: primary_keys_def)
  then show ?thesis
    using assms(1) by (simp add: CreateNewDevice_eq [OF s leaf assms(3) assms(4)] split: sum.split option.split)
qed

lemma primary_keys_CreateNewSensor:
  assumes "primary_keys d" and "sql_safe name" and "sql_safe desc"
  shows "primary_keys (snd (CreateNewSensor d name desc units))"
proof (cases "\<exists>a b c k h. split_dot name = [a, b, c, k, h]")
  case False
  then show ?thesis
    using assms(1) by (simp add: CreateNewSensor_def unpack5)
next
  case True
  then obtain a b c k h where s: "split_dot name = [a, b, c, k, h]" by blast
  have leaf: "sql_safe h"
    by (rule sql_safe_part [OF s _ assms(2)]) simp
  have "primary_keys (d\<lparr>Sensors := Sensors d @ [r]\<rparr>)"
    if "senID r = 1 + max_id (map senID (Sensors d))" for r
    using assms(1) fresh_key [of senID "Sensors d" r] that
    by (simp add: primary_keys_def)
  then show ?thesis
    using assms(1) by (simp add: CreateNewSensor_eq [OF s leaf assms(3)] split: sum.split option.split)
qed

lemma primary_keys_empty:
  "primary_keys \<lparr>Owners = [], Projects = [], Systems = [], Manufacturers = [], Devices = [],
                  UnitsTable = [], Sensors = [], recTable = [], now = t\<rparr>"
  by (simp add: primary_keys_def)

subsection \<open>The round trip\<close>






end
